theory Spec2Isabelle
  imports Main "HOL-Library.Word" "HOL-Library.Signed_Division"
begin

section \<open>Common ground: characters, decimal rendering, 16-bit arithmetic\<close>

text \<open>
  The repository holds two Arduino sketches. The Sensing Node (an Arduino Nano, AVR:
  \<open>int\<close> and \<open>unsigned int\<close> are 16 bits, \<open>unsigned long\<close> is 32 bits) is the sketch
  printed in \<open>README.md\<close>; the Forwarding Node (an ESP8266) is the \<open>.ino\<close> file. Both are
  embedded as state-passing functions over a record of their global variables. Text is
  a \<open>string\<close> (a list of bytes); a C string stored in a \<open>char[]\<close> is the list of its bytes
  before the terminating NUL.
\<close>

abbreviation NL :: char where "NL \<equiv> CHR 0x0A"
abbreviation CR :: char where "CR \<equiv> CHR 0x0D"
abbreviation TAB :: char where "TAB \<equiv> CHR 0x09"

definition digit_char :: "nat \<Rightarrow> char" where
  "digit_char d = ''0123456789'' ! d"

text \<open>Decimal digits of a natural number, most significant first (what \<open>%u\<close> prints).\<close>

fun dec :: "nat \<Rightarrow> string" where
  "dec n = (if n < 10 then [digit_char n] else dec (n div 10) @ [digit_char (n mod 10)])"

declare dec.simps [simp del]

text \<open>What \<open>%d\<close> and \<open>Serial.print(int)\<close> print for a signed value.\<close>

definition fmt_d :: "int \<Rightarrow> string" where
  "fmt_d i = (if i < 0 then CHR ''-'' # dec (nat (- i)) else dec (nat i))"

text \<open>
  C's \<open>/\<close> on 16-bit \<open>int\<close>: the quotient truncates towards zero. Sums and products of
  16-bit \<open>int\<close>s are word operations: they wrap modulo \<open>2^16\<close>, which is what the AVR
  target computes.
\<close>

definition sdiv16 :: "16 word \<Rightarrow> 16 word \<Rightarrow> 16 word" where
  "sdiv16 a b = word_of_int (sint a sdiv sint b)"

section \<open>The Sensing Node\<close>

datatype level = LOW | HIGH

text \<open>Pin numbers of the sketch.\<close>

definition RLY1 :: nat where "RLY1 = 10"
definition RLY2 :: nat where "RLY2 = 11"
definition RLY3 :: nat where "RLY3 = 12"

text \<open>Thresholds of the sketch (the \<open>#define\<close>s that the code uses).\<close>

definition CURRENT_NORMAL :: "16 word" where "CURRENT_NORMAL = 230"
definition VOLTAGE_NORMAL :: "16 word" where "VOLTAGE_NORMAL = 10000"
definition DHT11_NORMAL :: "16 word" where "DHT11_NORMAL = 30"
definition MEASUREMENT_DURATION_MS :: "32 word" where "MEASUREMENT_DURATION_MS = 10000"

text \<open>
  The global variables of the sketch, the level of every output pin, the history of
  \<open>digitalWrite\<close> calls, whether the speed-sensor interrupt is attached, and the bytes
  written so far to the debug port (\<open>Serial\<close>) and to the link (\<open>esp\<close>).
\<close>

record nano =
  pulseCount :: "16 word"
  startTime :: "32 word"
  prpm :: "16 word"
  Sensor1_Val :: "16 word"
  Sensor2_Val :: "16 word"
  Sensor3_Val :: "16 word"
  Sensor4_Val :: "16 word"
  Sensor5_Val :: "16 word"
  Sensor6_Val :: "16 word"
  Sensor7_Val :: "16 word"
  Sensor8_Val :: "16 word"
  RLY1_STATUS :: "16 word"
  RLY2_STATUS :: "16 word"
  RLY3_STATUS :: "16 word"
  foo :: string
  bar :: string
  goo :: string
  har :: string
  ioo :: string
  jar :: string
  loo :: string
  mar :: string
  nob :: string
  tot :: string
  zar :: string
  yar :: string
  uar :: string
  pin_level :: "nat \<Rightarrow> level"
  pin_writes :: "(nat \<times> level) list"
  irq_attached :: bool
  serial_out :: string
  esp_out :: string

definition Serial_print :: "string \<Rightarrow> nano \<Rightarrow> nano" where
  "Serial_print str s = s\<lparr>serial_out := serial_out s @ str\<rparr>"

definition Serial_println :: "string \<Rightarrow> nano \<Rightarrow> nano" where
  "Serial_println str s = s\<lparr>serial_out := serial_out s @ str @ [CR, NL]\<rparr>"

definition esp_print :: "string \<Rightarrow> nano \<Rightarrow> nano" where
  "esp_print str s = s\<lparr>esp_out := esp_out s @ str\<rparr>"

definition digitalWrite :: "nat \<Rightarrow> level \<Rightarrow> nano \<Rightarrow> nano" where
  "digitalWrite p v s =
     s\<lparr>pin_level := (pin_level s)(p := v), pin_writes := pin_writes s @ [(p, v)]\<rparr>"

definition detachInterrupt :: "nano \<Rightarrow> nano" where
  "detachInterrupt s = s\<lparr>irq_attached := False\<rparr>"

definition attachInterrupt :: "nano \<Rightarrow> nano" where
  "attachInterrupt s = s\<lparr>irq_attached := True\<rparr>"

text \<open>The interrupt service routine: \<open>pulseCount++\<close>.\<close>

definition countPulse :: "nano \<Rightarrow> nano" where
  "countPulse s = s\<lparr>pulseCount := pulseCount s + 1\<rparr>"

subsection \<open>\<open>Cal_RPM\<close>\<close>

text \<open>
  The smoothing step of \<open>Cal_RPM\<close>, on the two \<open>int\<close>s it reads:
  \<^verbatim>\<open>if (pulseCount == 0) prpm = 0;
  else if (prpm == 0) prpm = pulseCount * 3;
  else prpm = (prpm + (pulseCount * 3)) / 2;\<close>
\<close>

definition smooth :: "16 word \<Rightarrow> 16 word \<Rightarrow> 16 word" where
  "smooth pc p =
     (if pc = 0 then 0
      else if p = 0 then pc * 3
      else sdiv16 (p + pc * 3) 2)"

definition Cal_RPM :: "nano \<Rightarrow> nano" where
  "Cal_RPM s0 =
     (let s1 = detachInterrupt s0;
          s2 = Serial_print (NL # ''Raw Pulse Count: '') s1;
          s3 = Serial_print (fmt_d (sint (pulseCount s2))) s2;
          s4 = s3\<lparr>prpm := smooth (pulseCount s3) (prpm s3)\<rparr>;
          s5 = Serial_print (TAB # ''Calculated RPM (prpm): '') s4;
          s6 = Serial_println (fmt_d (sint (prpm s5))) s5;
          s7 = s6\<lparr>Sensor3_Val := prpm s6\<rparr>;
          s8 = Serial_print ''Sensor3_Val (RPM): '' s7;
          s9 = Serial_println (dec (unat (Sensor3_Val s8))) s8;
          s10 = s9\<lparr>pulseCount := 0\<rparr>
      in attachInterrupt s10)"

subsection \<open>\<open>ReadSensor_values\<close> and \<open>DHT11_read\<close>\<close>

text \<open>
  The sketch computes on \<open>float\<close> in three places: the two analog scalings and the DHT
  readings. The model is parametric in the type \<open>'f\<close> of floating-point values and in the
  operations on it that the sketch uses: \<open>isnan\<close>, the sensor library's
  \<open>computeHeatIndex(temperature, humidity, isFahrenheit)\<close>, the cast
  \<open>(unsigned int)\<close>, \<open>Serial.print(float)\<close>, and the two scalings
  \<open>x / 3.4\<close> and \<open>(unsigned int)((float)x / 42.8 * 1000.0)\<close> from and to
  \<open>unsigned int\<close>.
\<close>

record 'f float_ops =
  isnan :: "'f \<Rightarrow> bool"
  computeHeatIndex :: "'f \<Rightarrow> 'f \<Rightarrow> bool \<Rightarrow> 'f"
  to_uint :: "'f \<Rightarrow> 16 word"
  print_float :: "'f \<Rightarrow> string"
  scale_current :: "16 word \<Rightarrow> 16 word"
  scale_voltage :: "16 word \<Rightarrow> 16 word"

text \<open>What one pass of \<open>loop\<close> reads from the outside: the clock and the sensors.\<close>

record 'f window_inputs =
  millis_check :: "32 word"
  millis_end :: "32 word"
  adc_current :: "16 word"
  adc_voltage :: "16 word"
  dht_humidity :: "'f"
  dht_temperature :: "'f"
  dht_fahrenheit :: "'f"

text \<open>The three bytes that stand for the degree sign in the sketch's string literals.\<close>

definition degree :: string where
  "degree = [CHR 0xEC, CHR 0xA7, CHR 0xB8]"

definition DHT11_read :: "'f float_ops \<Rightarrow> 'f \<Rightarrow> 'f \<Rightarrow> 'f \<Rightarrow> nano \<Rightarrow> nano" where
  "DHT11_read ops h t f s =
     (if isnan ops h \<or> isnan ops t \<or> isnan ops f
      then Serial_println ''Failed to read from DHT sensor!'' s
      else
        let hif = computeHeatIndex ops f h True;
            hic = computeHeatIndex ops t h False;
            s1 = s\<lparr>Sensor4_Val := to_uint ops t\<rparr>;
            s2 = s1\<lparr>Sensor5_Val := to_uint ops h\<rparr>;
            s3 = s2\<lparr>Sensor6_Val := to_uint ops f\<rparr>;
            s4 = s3\<lparr>Sensor7_Val := to_uint ops hic\<rparr>;
            s5 = s4\<lparr>Sensor8_Val := to_uint ops hif\<rparr>;
            s6 = Serial_print ''Humidity: '' s5;
            s7 = Serial_print (print_float ops h) s6;
            s8 = Serial_print (''% '' @ TAB # ''Temperature: '') s7;
            s9 = Serial_print (print_float ops t) s8;
            s10 = Serial_print (degree @ ''C '') s9;
            s11 = Serial_print (print_float ops f) s10;
            s12 = Serial_print (degree @ ''F '' @ TAB # ''Heat index: '') s11;
            s13 = Serial_print (print_float ops hic) s12;
            s14 = Serial_print (degree @ ''C '') s13;
            s15 = Serial_print (print_float ops hif) s14
        in Serial_println (degree @ ''F'') s15)"

definition ReadSensor_values :: "'f float_ops \<Rightarrow> 'f window_inputs \<Rightarrow> nano \<Rightarrow> nano" where
  "ReadSensor_values ops inp s0 =
     (let s1 = Serial_println (NL # ''--------------------------------'') s0;
          s2 = s1\<lparr>Sensor1_Val := 0\<rparr>;
          s3 = s2\<lparr>Sensor2_Val := 0\<rparr>;
          s4 = s3\<lparr>Sensor1_Val := adc_current inp\<rparr>;
          s5 = Serial_print ''Current Sensor Value (raw): '' s4;
          s6 = Serial_println (dec (unat (Sensor1_Val s5))) s5;
          s7 = s6\<lparr>Sensor1_Val :=
                 (if Sensor1_Val s6 < 20 then 0 else scale_current ops (Sensor1_Val s6))\<rparr>;
          s8 = Serial_print ''Current Sensor Value (Sensor1_Val): '' s7;
          s9 = Serial_println (dec (unat (Sensor1_Val s8))) s8;
          s10 = s9\<lparr>Sensor2_Val := adc_voltage inp\<rparr>;
          s11 = Serial_print ''Voltage Sensor Value (raw): '' s10;
          s12 = Serial_println (dec (unat (Sensor2_Val s11))) s11;
          s13 = s12\<lparr>Sensor2_Val := scale_voltage ops (Sensor2_Val s12)\<rparr>;
          s14 = s13\<lparr>Sensor2_Val :=
                  (if Sensor2_Val s13 \<le> 1000 then 0 else Sensor2_Val s13)\<rparr>;
          s15 = Serial_print ''Voltage Sensor Value (Sensor2_Val): '' s14;
          s16 = Serial_println (dec (unat (Sensor2_Val s15))) s15
      in DHT11_read ops (dht_humidity inp) (dht_temperature inp) (dht_fahrenheit inp) s16)"

subsection \<open>\<open>RelayOperation\<close>\<close>

text \<open>The three blocks of \<open>RelayOperation\<close>, in the order of the sketch.\<close>

definition relay_voltage :: "nano \<Rightarrow> nano" where
  "relay_voltage s =
     (if Sensor2_Val s \<le> VOLTAGE_NORMAL then
        let s1 = Serial_println (NL # '' Voltage values is normal.'') s;
            s2 = (if RLY2_STATUS s1 = 1
                  then Serial_print ''RLY2 = OFF'' (digitalWrite RLY2 HIGH s1) else s1)
        in s2\<lparr>RLY2_STATUS := 0\<rparr>
      else if Sensor2_Val s > VOLTAGE_NORMAL then
        let s1 = Serial_println (NL # ''Voltage values are above normal.'') s;
            s2 = (if RLY2_STATUS s1 = 0
                  then Serial_print ''RLY2 = ON'' (digitalWrite RLY2 LOW s1) else s1)
        in s2\<lparr>RLY2_STATUS := 1\<rparr>
      else s)"

definition relay_current :: "nano \<Rightarrow> nano" where
  "relay_current s =
     (if Sensor1_Val s \<le> CURRENT_NORMAL then
        let s1 = Serial_println (NL # ''Current value is normal.'') s;
            s2 = (if RLY1_STATUS s1 = 1
                  then Serial_print ''RLY1 = OFF'' (digitalWrite RLY1 HIGH s1) else s1)
        in s2\<lparr>RLY1_STATUS := 0\<rparr>
      else if Sensor1_Val s > CURRENT_NORMAL then
        let s1 = Serial_println (NL # ''Current value above normal.'') s;
            s2 = (if RLY1_STATUS s1 = 0
                  then Serial_print ''RLY1 = ON'' (digitalWrite RLY1 LOW s1) else s1)
        in s2\<lparr>RLY1_STATUS := 1\<rparr>
      else s)"

definition relay_temperature :: "nano \<Rightarrow> nano" where
  "relay_temperature s =
     (if Sensor4_Val s \<le> DHT11_NORMAL then
        let s1 = Serial_println (NL # ''Temperature is normal.'') s;
            s2 = (if RLY3_STATUS s1 = 1
                  then Serial_print ''RLY3 = OFF'' (digitalWrite RLY3 HIGH s1) else s1)
        in s2\<lparr>RLY3_STATUS := 0\<rparr>
      else if Sensor4_Val s > DHT11_NORMAL then
        let s1 = Serial_println (NL # ''Temperature above normal.'') s;
            s2 = (if RLY3_STATUS s1 = 0
                  then Serial_print ''RLY3 = ON'' (digitalWrite RLY3 LOW s1) else s1)
        in s2\<lparr>RLY3_STATUS := 1\<rparr>
      else s)"

definition print_status :: "string \<Rightarrow> nano \<Rightarrow> nano" where
  "print_status label s =
     (let s1 = Serial_print (label @ ''RLY1_STATUS = '') s;
          s2 = Serial_print (dec (unat (RLY1_STATUS s1))) s1;
          s3 = Serial_print '', RLY2_STATUS = '' s2;
          s4 = Serial_print (dec (unat (RLY2_STATUS s3))) s3;
          s5 = Serial_print '', RLY3_STATUS = '' s4
      in Serial_print (dec (unat (RLY3_STATUS s5))) s5)"

definition RelayOperation :: "nano \<Rightarrow> nano" where
  "RelayOperation s0 =
     (let s1 = Serial_println (NL # ''--- Performing Relay Operations ---'') s0;
          s2 = print_status ''Current '' s1;
          s3 = relay_voltage s2;
          s4 = relay_current s3;
          s5 = relay_temperature s4;
          s6 = print_status (NL # ''Final '') s5
      in Serial_print [CR, NL] s6)"

subsection \<open>\<open>setup\<close> and \<open>loop\<close>\<close>

text \<open>The initialisers of the global variables, before \<open>setup\<close> runs.\<close>

definition nano_init :: nano where
  "nano_init =
     \<lparr>pulseCount = 0, startTime = 0, prpm = 0,
      Sensor1_Val = 0, Sensor2_Val = 0, Sensor3_Val = 0, Sensor4_Val = 0,
      Sensor5_Val = 0, Sensor6_Val = 0, Sensor7_Val = 0, Sensor8_Val = 0,
      RLY1_STATUS = 0, RLY2_STATUS = 0, RLY3_STATUS = 0,
      foo = [], bar = [], goo = [], har = [], ioo = [], jar = [], loo = [], mar = [],
      nob = [], tot = [], zar = [], yar = [], uar = [],
      pin_level = (\<lambda>p. LOW), pin_writes = [], irq_attached = False,
      serial_out = [], esp_out = []\<rparr>"

text \<open>\<open>setup\<close> of the Sensing Node, given what \<open>millis()\<close> returns in it.\<close>

definition setup_nano :: "32 word \<Rightarrow> nano \<Rightarrow> nano" where
  "setup_nano now s0 =
     (let s1 = digitalWrite RLY1 HIGH s0;
          s2 = digitalWrite RLY2 HIGH s1;
          s3 = digitalWrite RLY3 HIGH s2;
          s4 = Serial_println ''DHT Sensor Initialized.'' s3;
          s5 = attachInterrupt s4;
          s6 = s5\<lparr>startTime := now + MEASUREMENT_DURATION_MS\<rparr>;
          s7 = Serial_println (NL # ''Arduino Nano Setup Complete.'') s6
      in Serial_println ''Waiting for sensor readings and RPM pulses...'' s7)"

text \<open>
  The part of \<open>loop\<close> that fills the field buffers: the eight \<open>sprintf(buf, "%d", v)\<close>
  calls print an \<open>unsigned int\<close> through \<open>%d\<close>, which reads the 16 bits as a signed
  \<open>int\<close>; the three relay tokens; the combined status, which is written only in the two
  cases the sketch tests (otherwise \<open>yar\<close> keeps what it held); the reserved token.
\<close>

definition fill_buffers :: "nano \<Rightarrow> nano" where
  "fill_buffers s0 =
     (let s1 = s0\<lparr>foo := fmt_d (sint (Sensor1_Val s0))\<rparr>;
          s2 = s1\<lparr>bar := fmt_d (sint (Sensor2_Val s1))\<rparr>;
          s3 = s2\<lparr>goo := fmt_d (sint (Sensor3_Val s2))\<rparr>;
          s4 = s3\<lparr>har := fmt_d (sint (Sensor4_Val s3))\<rparr>;
          s5 = s4\<lparr>ioo := fmt_d (sint (Sensor5_Val s4))\<rparr>;
          s6 = s5\<lparr>jar := fmt_d (sint (Sensor6_Val s5))\<rparr>;
          s7 = s6\<lparr>loo := fmt_d (sint (Sensor7_Val s6))\<rparr>;
          s8 = s7\<lparr>mar := fmt_d (sint (Sensor8_Val s7))\<rparr>;
          s9 = s8\<lparr>nob := (if RLY1_STATUS s8 = 0 then ''OFF'' else ''ON'')\<rparr>;
          s10 = s9\<lparr>tot := (if RLY2_STATUS s9 = 0 then ''OFF'' else ''ON'')\<rparr>;
          s11 = s10\<lparr>zar := (if RLY3_STATUS s10 = 0 then ''OFF'' else ''ON'')\<rparr>;
          s12 = s11\<lparr>yar :=
                  (if RLY1_STATUS s11 = 0 \<and> RLY2_STATUS s11 = 0 \<and> RLY3_STATUS s11 = 0
                   then ''NOR''
                   else if RLY1_STATUS s11 = 1 \<or> RLY2_STATUS s11 = 1 \<or> RLY3_STATUS s11 = 1
                   then ''BUZ''
                   else yar s11)\<rparr>
      in s12\<lparr>uar := ''RSV''\<rparr>)"

text \<open>The \<open>strcpy\<close> and the 26 \<open>strcat\<close>s that build \<open>str\<close>.\<close>

definition build_str :: "nano \<Rightarrow> string" where
  "build_str s =
     ''ADU_TEXT&'' @ foo s @ ''&'' @ bar s @ ''&'' @ goo s @ ''&'' @ har s @ ''&'' @ ioo s
       @ ''&'' @ jar s @ ''&'' @ loo s @ ''&'' @ mar s @ ''&'' @ nob s @ ''&'' @ tot s
       @ ''&'' @ zar s @ ''&'' @ yar s @ ''&'' @ uar s"

definition send_frame :: "nano \<Rightarrow> nano" where
  "send_frame s0 =
     (let s1 = fill_buffers s0;
          str = build_str s1;
          s2 = Serial_print (NL # ''Sending to ESP: '') s1;
          s3 = Serial_println str s2
      in esp_print str s3)"

text \<open>
  One pass of \<open>loop\<close> of the Sensing Node: when the window has elapsed (unsigned 32-bit subtraction), the
  four stages run in order and \<open>startTime\<close> is reset; otherwise nothing happens.
  \<open>delay\<close> changes no variable.
\<close>

definition loop_nano :: "'f float_ops \<Rightarrow> 'f window_inputs \<Rightarrow> nano \<Rightarrow> nano" where
  "loop_nano ops inp s0 =
     (if millis_check inp - startTime s0 \<ge> MEASUREMENT_DURATION_MS then
        let s1 = Cal_RPM s0;
            s2 = ReadSensor_values ops inp s1;
            s3 = RelayOperation s2;
            s4 = send_frame s3
        in s4\<lparr>startTime := millis_end inp\<rparr>
      else s0)"

section \<open>The Forwarding Node\<close>

subsection \<open>\<open>sscanf\<close>\<close>

text \<open>
  The directives that the sketch's format string uses: \<open>%w[^c]\<close> (a non-empty run of at
  most \<open>w\<close> bytes other than \<open>c\<close>, no white space skipped), a literal byte, and \<open>%ws\<close>
  (white space skipped, then a non-empty run of at most \<open>w\<close> bytes that are not white
  space).
\<close>

datatype directive = ScanNot char nat | Lit char | Str nat

definition isspace :: "char \<Rightarrow> bool" where
  "isspace c = (c \<in> {CHR '' '', TAB, NL, CHR 0x0B, CHR 0x0C, CR})"

text \<open>
  \<open>scan\<close> runs the directives over the input and returns the strings assigned to the
  successive arguments, with a flag telling whether it stopped because the input ended
  (an input failure) rather than on a byte that does not fit (a matching failure).
  \<open>assigned f r\<close> puts the field \<open>f\<close> in front of what the rest of the format assigned.
\<close>

definition assigned :: "string \<Rightarrow> string list \<times> bool \<Rightarrow> string list \<times> bool" where
  "assigned f r = (f # fst r, snd r)"

fun scan :: "directive list \<Rightarrow> string \<Rightarrow> string list \<times> bool" where
  "scan [] inp = ([], False)"
| "scan (ScanNot c w # ds) inp =
     (let f = takeWhile (\<lambda>x. x \<noteq> c) (take w inp)
      in if f = [] then ([], inp = [])
         else assigned f (scan ds (drop (length f) inp)))"
| "scan (Lit c # ds) inp =
     (case inp of [] \<Rightarrow> ([], True)
      | x # xs \<Rightarrow> if x = c then scan ds xs else ([], False))"
| "scan (Str w # ds) inp =
     (let inp' = dropWhile isspace inp;
          f = takeWhile (\<lambda>x. \<not> isspace x) (take w inp')
      in if f = [] then ([], True)
         else assigned f (scan ds (drop (length f) inp')))"

text \<open>
  The value \<open>sscanf\<close> returns: the number of arguments assigned, or \<open>EOF\<close> (-1) when the
  input ended before the first conversion.
\<close>

definition sscanf_result :: "string list \<times> bool \<Rightarrow> int" where
  "sscanf_result r = (if fst r = [] \<and> snd r then - 1 else int (length (fst r)))"

text \<open>
  The sketch's format string:
  thirteen times \<open>%29[^&]&\<close>, then \<open>%29s\<close>.
\<close>

definition frame_format :: "directive list" where
  "frame_format =
     [ScanNot (CHR ''&'') 29, Lit (CHR ''&''), ScanNot (CHR ''&'') 29, Lit (CHR ''&''),
      ScanNot (CHR ''&'') 29, Lit (CHR ''&''), ScanNot (CHR ''&'') 29, Lit (CHR ''&''),
      ScanNot (CHR ''&'') 29, Lit (CHR ''&''), ScanNot (CHR ''&'') 29, Lit (CHR ''&''),
      ScanNot (CHR ''&'') 29, Lit (CHR ''&''), ScanNot (CHR ''&'') 29, Lit (CHR ''&''),
      ScanNot (CHR ''&'') 29, Lit (CHR ''&''), ScanNot (CHR ''&'') 29, Lit (CHR ''&''),
      ScanNot (CHR ''&'') 29, Lit (CHR ''&''), ScanNot (CHR ''&'') 29, Lit (CHR ''&''),
      ScanNot (CHR ''&'') 29, Lit (CHR ''&''), Str 29]"

subsection \<open>State and environment\<close>

text \<open>
  The fourteen global buffers \<open>data1\<close> .. \<open>data14\<close> are the list \<open>data\<close> (\<open>data s ! 0\<close> is
  \<open>data1\<close>); \<open>posts\<close> holds the body of every \<open>http.POST\<close> made so far, \<open>wifi_begins\<close>
  counts the reconnection attempts made by \<open>sendData\<close>, \<open>esp_serial\<close> is the diagnostic
  output.
\<close>

record esp =
  data :: "string list"
  posts :: "string list"
  wifi_begins :: nat
  esp_serial :: string

definition esp_init :: esp where
  "esp_init = \<lparr>data = replicate 14 [], posts = [], wifi_begins = 0, esp_serial = []\<rparr>"

text \<open>What one call of \<open>sendData\<close> meets outside the sketch.\<close>

record esp_env =
  wifi_connected :: bool
  begin_ok :: bool
  httpResponseCode :: int
  response :: string
  error_string :: string

datatype fault = JsonBufferOverflow

definition esp_print_log :: "string \<Rightarrow> esp \<Rightarrow> esp" where
  "esp_print_log str s = s\<lparr>esp_serial := esp_serial s @ str\<rparr>"

definition esp_println_log :: "string \<Rightarrow> esp \<Rightarrow> esp" where
  "esp_println_log str s = s\<lparr>esp_serial := esp_serial s @ str @ [CR, NL]\<rparr>"

subsection \<open>\<open>sendData\<close>\<close>

text \<open>The text that \<open>sprintf\<close> writes for the thirteen buffers \<open>data1\<close> .. \<open>data13\<close>.\<close>

definition json_text :: "string list \<Rightarrow> string" where
  \<open>json_text d =
     ''{"TYPE": "'' @ d ! 0
       @ ''", "VAL1": "'' @ d ! 1
       @ ''", "VAL2": "'' @ d ! 2
       @ ''", "VAL3": "'' @ d ! 3
       @ ''", "VAL4": "'' @ d ! 4
       @ ''", "VAL5": "'' @ d ! 5
       @ ''", "VAL6": "'' @ d ! 6
       @ ''", "VAL7": "'' @ d ! 7
       @ ''", "VAL8": "'' @ d ! 8
       @ ''", "VAL9": "'' @ d ! 9
       @ ''", "VAL10": "'' @ d ! 10
       @ ''", "VAL11": "'' @ d ! 11
       @ ''", "VAL12": "'' @ d ! 12
       @ ''"}''\<close>

text \<open>
  \<open>jsonBuffer\<close> has 300 bytes: a text of 300 bytes or more (with its NUL) does not fit,
  and the sketch writes past the buffer. The model stops there with a fault.
\<close>

definition sendData :: "esp_env \<Rightarrow> esp \<Rightarrow> fault + esp" where
  "sendData env s =
     (if wifi_connected env then
        let s1 = esp_println_log ''Attempting HTTP POST...'' s
        in if begin_ok env then
             let json = json_text (data s1)
             in if length json \<ge> 300 then Inl JsonBufferOverflow
                else
                  let s2 = esp_print_log ''Sending JSON: '' s1;
                      s3 = esp_println_log json s2;
                      s4 = s3\<lparr>posts := posts s3 @ [json]\<rparr>
                  in if httpResponseCode env > 0 then
                       Inr (esp_println_log (''Server Response: '' @ response env)
                             (esp_print_log (''HTTP Response Code: ''
                                @ fmt_d (httpResponseCode env) @ [NL]) s4))
                     else
                       Inr (esp_print_log (''HTTP POST failed. Error code: ''
                              @ fmt_d (httpResponseCode env) @ '' - '' @ error_string env
                              @ [NL]) s4)
           else Inr (esp_println_log ''HTTP begin failed. Check serverUrl or network.'' s1)
      else
        Inr ((esp_println_log ''WiFi not connected. Attempting to reconnect...'' s)
               \<lparr>wifi_begins := Suc (wifi_begins s)\<rparr>))"

subsection \<open>\<open>loop\<close>\<close>

text \<open>
  \<open>Serial.readBytesUntil(terminator, buffer, n)\<close> over the bytes \<open>rx\<close> that arrive before
  the read times out: bytes are taken until the terminator (which is consumed and not
  stored), until \<open>n\<close> bytes are stored, or until the input runs out. The result is the
  stored bytes and the bytes left unread.
\<close>

definition readBytesUntil :: "char \<Rightarrow> nat \<Rightarrow> string \<Rightarrow> string \<times> string" where
  "readBytesUntil terminator n rx =
     (let stored = takeWhile (\<lambda>c. c \<noteq> terminator) (take n rx);
          rest = drop (length stored) rx
      in (stored, if length stored < n then drop 1 rest else rest))"

text \<open>The C string held by a zero-filled buffer into which \<open>bs\<close> was read.\<close>

definition c_str :: "string \<Rightarrow> string" where
  "c_str bs = takeWhile (\<lambda>c. c \<noteq> CHR 0x00) bs"

text \<open>The buffers after \<open>sscanf\<close> assigned \<open>fs\<close> to the first \<open>length fs\<close> of them.\<close>

definition assign_fields :: "string list \<Rightarrow> string list \<Rightarrow> string list" where
  "assign_fields fs d = fs @ drop (length fs) d"

definition parse_line :: "string \<Rightarrow> esp \<Rightarrow> esp" where
  "parse_line receivedBuffer s0 =
     (let s1 = esp_print_log ''Received from Serial: '' s0;
          s2 = esp_println_log receivedBuffer s1;
          r = scan frame_format receivedBuffer;
          numParsed = sscanf_result r;
          s3 = s2\<lparr>data := assign_fields (fst r) (data s2)\<rparr>;
          d = data s3;
          s4 = esp_print_log (''Parsed '' @ fmt_d numParsed @ '' data segments.'' @ [NL]) s3;
          s5 = esp_print_log (''data1 (TYPE): '' @ d ! 0 @ [NL]) s4;
          s6 = esp_print_log (''data2 (VAL1): '' @ d ! 1 @ '', data3 (VAL2): '' @ d ! 2
                 @ '', data4 (VAL3): '' @ d ! 3 @ '', data5 (VAL4): '' @ d ! 4 @ [NL]) s5;
          s7 = esp_print_log (''data6 (VAL5): '' @ d ! 5 @ '', data7 (VAL6): '' @ d ! 6
                 @ '', data8 (VAL7): '' @ d ! 7 @ [NL]) s6;
          s8 = esp_print_log (''data9 (VAL8): '' @ d ! 8 @ '', data10 (VAL9): '' @ d ! 9
                 @ '', data11 (VAL10): '' @ d ! 10 @ [NL]) s7
      in esp_print_log (''data12 (VAL11): '' @ d ! 11 @ '', data13 (VAL12): '' @ d ! 12
           @ '', data14 (VAL13): '' @ d ! 13 @ [CHR 0x5C, CHR ''n'']) s8)"

text \<open>
  One pass of \<open>loop\<close> of the Forwarding Node over the pending input \<open>rx\<close>: the new state
  and the input left unread, or the fault of \<open>sendData\<close>.
\<close>

definition loop_esp :: "esp_env \<Rightarrow> string \<Rightarrow> esp \<Rightarrow> fault + (esp \<times> string)" where
  "loop_esp env rx s =
     (if rx \<noteq> [] then
        let (bytes, rest) = readBytesUntil NL 500 rx;
            receivedBuffer = c_str bytes
        in case sendData env (parse_line receivedBuffer s) of
             Inl e \<Rightarrow> Inl e
           | Inr s' \<Rightarrow> Inr (s', rest)
      else Inr (s, rx))"

section \<open>Predicates and concrete states used in the statements\<close>

text \<open>\<open>x\<close> lies between \<open>a\<close> and \<open>b\<close>, inclusive, whichever of the two is the larger.\<close>

definition lies_between :: "int \<Rightarrow> int \<Rightarrow> int \<Rightarrow> bool" where
  "lies_between a b x = (min a b \<le> x \<and> x \<le> max a b)"

text \<open>A window boundary with 500 pulses counted and a smoothed estimate of 1000.\<close>

definition running_window :: nano where
  "running_window = nano_init\<lparr>pulseCount := 500, prpm := 1000\<rparr>"

text \<open>A window boundary with no pulse counted and a smoothed estimate of 1000.\<close>

definition stalled_window :: nano where
  "stalled_window = nano_init\<lparr>pulseCount := 0, prpm := 1000\<rparr>"

text \<open>
  Two windows of 10000 pulses each, from the initial state: the state at the second
  boundary, before \<open>Cal_RPM\<close> runs there.
\<close>

definition overflow_window :: nano where
  "overflow_window = (Cal_RPM (nano_init\<lparr>pulseCount := 10000\<rparr>))\<lparr>pulseCount := 10000\<rparr>"

text \<open>
  The relay flags are 0 or 1 and every relay pin is at the level of its flag (the relays
  are active-low: \<open>LOW\<close> drives the coil). \<open>setup\<close> establishes this and every pass of
  \<open>loop\<close> keeps it.
\<close>

definition relay_consistent :: "nano \<Rightarrow> bool" where
  "relay_consistent s =
     ((RLY1_STATUS s = 0 \<or> RLY1_STATUS s = 1)
      \<and> pin_level s RLY1 = (if RLY1_STATUS s = 1 then LOW else HIGH)
      \<and> (RLY2_STATUS s = 0 \<or> RLY2_STATUS s = 1)
      \<and> pin_level s RLY2 = (if RLY2_STATUS s = 1 then LOW else HIGH)
      \<and> (RLY3_STATUS s = 0 \<or> RLY3_STATUS s = 1)
      \<and> pin_level s RLY3 = (if RLY3_STATUS s = 1 then LOW else HIGH))"

text \<open>The \<open>digitalWrite\<close> calls on pin \<open>p\<close> made between the states \<open>s\<close> and \<open>s'\<close>.\<close>

definition writes_to :: "nat \<Rightarrow> nano \<Rightarrow> nano \<Rightarrow> (nat \<times> level) list" where
  "writes_to p s s' = filter (\<lambda>w. fst w = p) (drop (length (pin_writes s)) (pin_writes s'))"

text \<open>
  After \<open>setup\<close>, a voltage sample of 21028 was evaluated once (relay 2 went ON); the
  sample is unchanged at the next evaluation.
\<close>

definition retriggered :: nano where
  "retriggered = RelayOperation ((setup_nano 0 nano_init)\<lparr>Sensor2_Val := 21028\<rparr>)"

text \<open>
  The ten digit characters.
\<close>

definition digits :: "char set" where
  "digits = set ''0123456789''"

text \<open>
  The fourteen fields of the frame that \<open>build_str\<close> lays out, in order: the type tag and
  the thirteen field buffers.
\<close>

definition frame_fields :: "nano \<Rightarrow> string list" where
  "frame_fields s =
     [''ADU_TEXT'', foo s, bar s, goo s, har s, ioo s, jar s, loo s, mar s,
      nob s, tot s, zar s, yar s, uar s]"

text \<open>
  Every relay flag is 0 or 1, as after any run of \<open>RelayOperation\<close>.
\<close>

definition flags_binary :: "nano \<Rightarrow> bool" where
  "flags_binary s =
     ((RLY1_STATUS s = 0 \<or> RLY1_STATUS s = 1) \<and> (RLY2_STATUS s = 0 \<or> RLY2_STATUS s = 1)
      \<and> (RLY3_STATUS s = 0 \<or> RLY3_STATUS s = 1))"

text \<open>
  A field that \<open>%29[^&]\<close> reads whole: not empty, without \<open>&\<close>, at most 29 bytes.
\<close>

definition field_ok :: "string \<Rightarrow> bool" where
  "field_ok f = (f \<noteq> [] \<and> CHR ''&'' \<notin> set f \<and> length f \<le> 29)"

text \<open>
  The bytes written to the link between the states \<open>s\<close> and \<open>s'\<close>.
\<close>

definition sent_bytes :: "nano \<Rightarrow> nano \<Rightarrow> string" where
  "sent_bytes s s' = drop (length (esp_out s)) (esp_out s')"

text \<open>
  The buffers \<open>data1\<close> .. \<open>data14\<close> after a pass of the Forwarding Node's \<open>loop\<close>, when
  it did not fault.
\<close>

definition received_fields :: "fault + (esp \<times> string) \<Rightarrow> string list option" where
  "received_fields r = (case r of Inl e \<Rightarrow> None | Inr (s, rest) \<Rightarrow> Some (data s))"

text \<open>
  A stand-in for the floating-point operations, in exact arithmetic on whole numbers
  (\<open>None\<close> is not-a-number; the heat index is taken to be the temperature). It is used in
  the examples only; the theorems hold for any operations.
\<close>

definition demo_ops :: "int option float_ops" where
  "demo_ops =
     \<lparr>isnan = (\<lambda>x. x = None),
      computeHeatIndex = (\<lambda>t h isFahrenheit. t),
      to_uint = (\<lambda>x. case x of None \<Rightarrow> 0 | Some i \<Rightarrow> word_of_int i),
      print_float = (\<lambda>x. case x of None \<Rightarrow> ''nan'' | Some i \<Rightarrow> fmt_d i @ ''.00''),
      scale_current = (\<lambda>x. word_of_nat (unat x * 10 div 34)),
      scale_voltage = (\<lambda>x. word_of_nat (unat x * 10000 div 428))\<rparr>"

text \<open>
  A window's inputs: raw current 15 (below the floor of 20), raw voltage 900 (scaled to
  21028), 25 degrees Celsius, 77 degrees Fahrenheit, 60 percent humidity.
\<close>

definition demo_inputs :: "int option window_inputs" where
  "demo_inputs =
     \<lparr>millis_check = 20000, millis_end = 20350, adc_current = 15, adc_voltage = 900,
      dht_humidity = Some 60, dht_temperature = Some 25, dht_fahrenheit = Some 77\<rparr>"

text \<open>
  The state after \<open>setup\<close> at time 0, with 500 pulses counted since.
\<close>

definition demo_state :: nano where
  "demo_state = (setup_nano 0 nano_init)\<lparr>pulseCount := 500\<rparr>"

text \<open>
  A measurement sample with relay 2 ON, before the frame is encoded.
\<close>

definition sample_window :: nano where
  "sample_window =
     nano_init\<lparr>Sensor1_Val := 10, Sensor2_Val := 200, Sensor3_Val := 1500, Sensor4_Val := 25,
       Sensor5_Val := 60, Sensor6_Val := 77, Sensor7_Val := 26, Sensor8_Val := 79,
       RLY2_STATUS := 1\<rparr>"

text \<open>
  An environment in which the network is up and the collector answers 200.
\<close>

definition online :: esp_env where
  "online = \<lparr>wifi_connected = True, begin_ok = True, httpResponseCode = 200,
     response = ''OK'', error_string = []\<rparr>"

text \<open>
  The C string that one pass of the Forwarding Node's \<open>loop\<close> hands to \<open>sscanf\<close>, for the
  pending input \<open>rx\<close>.
\<close>

definition line_of :: "string \<Rightarrow> string" where
  "line_of rx = c_str (fst (readBytesUntil NL 500 rx))"

text \<open>
  The bodies of all POST requests made up to the end of a pass of the Forwarding Node's
  \<open>loop\<close>, when it did not fault.
\<close>

definition posted_bodies :: "fault + (esp \<times> string) \<Rightarrow> string list option" where
  "posted_bodies r = (case r of Inl e \<Rightarrow> None | Inr (s, rest) \<Rightarrow> Some (posts s))"

text \<open>
  A reading that is not a number, for the stand-in operations.
\<close>

definition nan_reading :: "int option" where
  "nan_reading = None"

text \<open>
  The Forwarding Node after it received the frame of \<open>sample_window\<close>.
\<close>

definition stale_esp :: esp where
  "stale_esp = esp_init\<lparr>data :=
     [''ADU_TEXT'', ''10'', ''200'', ''1500'', ''25'', ''60'', ''77'', ''26'', ''79'',
      ''OFF'', ''ON'', ''OFF'', ''BUZ'', ''RSV'']\<rparr>"

text \<open>
  A line with three fields only.
\<close>

definition short_line :: string where
  "short_line = ''ADU_TEXT&11&201'' @ [NL]"

text \<open>
  A line of fourteen fields whose first field is not \<open>ADU_TEXT\<close>.
\<close>

definition wrong_tag_line :: string where
  "wrong_tag_line = ''HELLO&10&200&1500&25&60&77&26&79&OFF&ON&OFF&BUZ&RSV'' @ [NL]"

text \<open>
  A line whose second field has 33 bytes.
\<close>

definition long_field_line :: string where
  "long_field_line = ''ADU_TEXT&123456789012345678901234567890123&2'' @ [NL]"

text \<open>
  A qualifying rising edge on the speed input. \<open>attachInterrupt(..., countPulse, RISING)\<close>
  makes such an edge run \<open>countPulse\<close>; while the interrupt is detached the handler is not
  run, and what the edge does to the state is the interrupt controller's affair, which
  the sketch does not say: it is the parameter \<open>ctl\<close>.
\<close>

definition rising_edge :: "(nano \<Rightarrow> nano) \<Rightarrow> nano \<Rightarrow> nano" where
  "rising_edge ctl s = (if irq_attached s then countPulse s else ctl s)"

text \<open>A controller that forgets an edge that arrives while the interrupt is detached.\<close>

definition drop_edge :: "nano \<Rightarrow> nano" where
  "drop_edge s = s"

text \<open>The statements of \<open>Cal_RPM\<close> between \<open>detachInterrupt\<close> and \<open>attachInterrupt\<close>.\<close>

definition Cal_RPM_detached :: "nano \<Rightarrow> nano" where
  "Cal_RPM_detached s1 =
     (let s2 = Serial_print (NL # ''Raw Pulse Count: '') s1;
          s3 = Serial_print (fmt_d (sint (pulseCount s2))) s2;
          s4 = s3\<lparr>prpm := smooth (pulseCount s3) (prpm s3)\<rparr>;
          s5 = Serial_print (TAB # ''Calculated RPM (prpm): '') s4;
          s6 = Serial_println (fmt_d (sint (prpm s5))) s5;
          s7 = s6\<lparr>Sensor3_Val := prpm s6\<rparr>;
          s8 = Serial_print ''Sensor3_Val (RPM): '' s7;
          s9 = Serial_println (dec (unat (Sensor3_Val s8))) s8
      in s9\<lparr>pulseCount := 0\<rparr>)"

text \<open>
  \<open>Cal_RPM\<close> with \<open>k\<close> edges arriving right after \<open>detachInterrupt\<close> and \<open>m\<close> edges arriving
  right before \<open>attachInterrupt\<close>.
\<close>

definition Cal_RPM_with_edges :: "(nano \<Rightarrow> nano) \<Rightarrow> nat \<Rightarrow> nat \<Rightarrow> nano \<Rightarrow> nano" where
  "Cal_RPM_with_edges ctl k m s =
     attachInterrupt
       ((rising_edge ctl ^^ m) (Cal_RPM_detached ((rising_edge ctl ^^ k) (detachInterrupt s))))"

text \<open>
  Every numeric field of the sample is at most 32767, the largest value that \<open>%d\<close>
  prints as it stands on the 16-bit target.
\<close>

definition sample_below_32768 :: "nano \<Rightarrow> bool" where
  "sample_below_32768 s =
     (unat (Sensor1_Val s) < 32768 \<and> unat (Sensor2_Val s) < 32768
      \<and> unat (Sensor3_Val s) < 32768 \<and> unat (Sensor4_Val s) < 32768
      \<and> unat (Sensor5_Val s) < 32768 \<and> unat (Sensor6_Val s) < 32768
      \<and> unat (Sensor7_Val s) < 32768 \<and> unat (Sensor8_Val s) < 32768)"

text \<open>
  The sample of \<open>sample_window\<close> with an RPM field of 40000.
\<close>

definition large_sample :: nano where
  "large_sample = sample_window\<lparr>Sensor3_Val := 40000\<rparr>"

text \<open>
  The strings that the fields of a frame stand for: the type tag, the decimal numeral of
  each of the eight sample values, the token of each relay flag, the aggregate token and
  the reserved token.
\<close>

definition sample_strings :: "nano \<Rightarrow> string list" where
  "sample_strings s =
     [''ADU_TEXT'', dec (unat (Sensor1_Val s)), dec (unat (Sensor2_Val s)),
      dec (unat (Sensor3_Val s)), dec (unat (Sensor4_Val s)), dec (unat (Sensor5_Val s)),
      dec (unat (Sensor6_Val s)), dec (unat (Sensor7_Val s)), dec (unat (Sensor8_Val s)),
      (if RLY1_STATUS s = 0 then ''OFF'' else ''ON''),
      (if RLY2_STATUS s = 0 then ''OFF'' else ''ON''),
      (if RLY3_STATUS s = 0 then ''OFF'' else ''ON''),
      (if RLY1_STATUS s = 0 \<and> RLY2_STATUS s = 0 \<and> RLY3_STATUS s = 0 then ''NOR'' else ''BUZ''),
      ''RSV'']"

section \<open>Properties of the pulse-rate estimator\<close>

lemma prpm_Cal_RPM: "prpm (Cal_RPM s) = smooth (pulseCount s) (prpm s)"
  by (simp add: Cal_RPM_def Let_def detachInterrupt_def attachInterrupt_def
      Serial_print_def Serial_println_def)

lemma Sensor3_Val_Cal_RPM: "Sensor3_Val (Cal_RPM s) = smooth (pulseCount s) (prpm s)"
  by (simp add: Cal_RPM_def Let_def detachInterrupt_def attachInterrupt_def
      Serial_print_def Serial_println_def)

text \<open>
  C6. Whatever the prior smoothed value, a raw pulse count of 0 at the window boundary
  makes the smoothed estimate \<open>prpm\<close>, and the published \<open>Sensor3_Val\<close>, exactly 0.
\<close>

theorem zero_count_forces_zero_rpm:
  "pulseCount s = 0 \<Longrightarrow> prpm (Cal_RPM s) = 0 \<and> Sensor3_Val (Cal_RPM s) = 0"
  by (simp add: prpm_Cal_RPM Sensor3_Val_Cal_RPM smooth_def)

theorem zero_count_forces_zero_rpm_witness:
  "pulseCount stalled_window = 0 \<and> prpm stalled_window = 1000
   \<and> prpm (Cal_RPM stalled_window) = 0 \<and> Sensor3_Val (Cal_RPM stalled_window) = 0"
  using zero_count_forces_zero_rpm [of stalled_window]
  by (simp add: stalled_window_def nano_init_def)

subsection \<open>The 1:1 average\<close>

lemma sint16_of_int:
  "- 32768 \<le> k \<Longrightarrow> k \<le> 32767 \<Longrightarrow> sint (word_of_int k :: 16 word) = k"
  by (simp add: sint_sbintrunc' signed_take_bit_int_eq_self)

lemma sint_mult3:
  "- 32768 \<le> 3 * sint pc \<Longrightarrow> 3 * sint pc \<le> 32767
   \<Longrightarrow> sint (pc * 3 :: 16 word) = 3 * sint pc"
  by (simp add: sint_word_ariths signed_take_bit_int_eq_self mult.commute)

lemma sint_add16:
  "- 32768 \<le> sint a + sint b \<Longrightarrow> sint a + sint b \<le> 32767
   \<Longrightarrow> sint (a + b :: 16 word) = sint a + sint b"
  by (simp add: sint_word_ariths signed_take_bit_int_eq_self)

lemma sdiv2_between: "min (a::int) b \<le> (a + b) sdiv 2 \<and> (a + b) sdiv 2 \<le> max a b"
  by (auto simp: signed_divide_int_def sgn_if min_def max_def abs_if)

lemma sint_sdiv16_2:
  assumes "- 32768 \<le> sint x" "sint x \<le> 32767"
  shows "sint (sdiv16 x 2) = sint x sdiv 2"
proof -
  have "- 32768 \<le> sint x sdiv 2 \<and> sint x sdiv 2 \<le> 32767"
    using assms by (auto simp: signed_divide_int_def sgn_if abs_if)
  then show ?thesis
    by (simp add: sdiv16_def sint16_of_int)
qed

text \<open>
  C7, as the code has it. For a non-zero raw pulse count, whenever the raw estimate
  \<open>pulseCount * 3\<close> and the sum \<open>prpm + pulseCount * 3\<close> stay within the range of a
  16-bit \<open>int\<close>, the new smoothed estimate lies between the previous smoothed estimate
  and the raw estimate, inclusive.
\<close>

theorem smoothed_between_without_overflow:
  assumes "pulseCount s \<noteq> 0"
    and "- 32768 \<le> 3 * sint (pulseCount s)" and "3 * sint (pulseCount s) \<le> 32767"
    and "- 32768 \<le> sint (prpm s) + 3 * sint (pulseCount s)"
    and "sint (prpm s) + 3 * sint (pulseCount s) \<le> 32767"
  shows "lies_between (sint (prpm s)) (3 * sint (pulseCount s)) (sint (prpm (Cal_RPM s)))"
proof (cases "prpm s = 0")
  case True
  then have "sint (prpm (Cal_RPM s)) = 3 * sint (pulseCount s)"
    using assms by (simp add: prpm_Cal_RPM smooth_def sint_mult3)
  then show ?thesis
    using True by (simp add: lies_between_def)
next
  case False
  have raw: "sint (pulseCount s * 3) = 3 * sint (pulseCount s)"
    using assms by (simp add: sint_mult3)
  have sum: "sint (prpm s + pulseCount s * 3) = sint (prpm s) + 3 * sint (pulseCount s)"
    using assms raw by (simp add: sint_add16)
  have "sint (prpm (Cal_RPM s)) = (sint (prpm s) + 3 * sint (pulseCount s)) sdiv 2"
    using False assms sum by (simp add: prpm_Cal_RPM smooth_def sint_sdiv16_2)
  then show ?thesis
    using sdiv2_between [of "sint (prpm s)" "3 * sint (pulseCount s)"]
    by (simp add: lies_between_def)
qed

theorem smoothed_between_without_overflow_witness:
  "pulseCount running_window \<noteq> 0
   \<and> - 32768 \<le> 3 * sint (pulseCount running_window)
   \<and> 3 * sint (pulseCount running_window) \<le> 32767
   \<and> - 32768 \<le> sint (prpm running_window) + 3 * sint (pulseCount running_window)
   \<and> sint (prpm running_window) + 3 * sint (pulseCount running_window) \<le> 32767
   \<and> lies_between (sint (prpm running_window)) (3 * sint (pulseCount running_window))
        (sint (prpm (Cal_RPM running_window)))"
  using smoothed_between_without_overflow [of running_window]
  by (simp add: running_window_def nano_init_def)

text \<open>
  C7 as stated fails when the 16-bit sum wraps. After one window of 10000 pulses the
  estimate is 30000; a second window of 10000 pulses has the raw estimate 30000 again,
  the sum 60000 wraps to -5536, and the new estimate is -2768, which is not between
  30000 and 30000.
\<close>

theorem smoothed_between_counterexample:
  "pulseCount overflow_window \<noteq> 0
   \<and> sint (prpm overflow_window) = 30000
   \<and> sint (pulseCount overflow_window * 3) = 30000
   \<and> sint (prpm (Cal_RPM overflow_window)) = - 2768
   \<and> \<not> lies_between (sint (prpm overflow_window)) (sint (pulseCount overflow_window * 3))
          (sint (prpm (Cal_RPM overflow_window)))"
  by (simp add: overflow_window_def prpm_Cal_RPM smooth_def nano_init_def sdiv16_def
      signed_divide_int_def lies_between_def)

section \<open>Properties of the relay state machine\<close>

lemmas io_defs = Serial_print_def Serial_println_def digitalWrite_def

lemma print_status_fields [simp]:
  "RLY1_STATUS (print_status l s) = RLY1_STATUS s"
  "RLY2_STATUS (print_status l s) = RLY2_STATUS s"
  "RLY3_STATUS (print_status l s) = RLY3_STATUS s"
  "Sensor1_Val (print_status l s) = Sensor1_Val s"
  "Sensor2_Val (print_status l s) = Sensor2_Val s"
  "Sensor4_Val (print_status l s) = Sensor4_Val s"
  "pin_level (print_status l s) = pin_level s"
  "pin_writes (print_status l s) = pin_writes s"
  by (simp_all add: print_status_def Let_def io_defs)

lemma relay_voltage_fields:
  "RLY2_STATUS (relay_voltage s) = (if Sensor2_Val s > 10000 then 1 else 0)"
  "RLY1_STATUS (relay_voltage s) = RLY1_STATUS s"
  "RLY3_STATUS (relay_voltage s) = RLY3_STATUS s"
  "Sensor1_Val (relay_voltage s) = Sensor1_Val s"
  "Sensor2_Val (relay_voltage s) = Sensor2_Val s"
  "Sensor4_Val (relay_voltage s) = Sensor4_Val s"
  "pin_level (relay_voltage s) =
     (if Sensor2_Val s > 10000 then (if RLY2_STATUS s = 0 then (pin_level s)(RLY2 := LOW) else pin_level s)
      else (if RLY2_STATUS s = 1 then (pin_level s)(RLY2 := HIGH) else pin_level s))"
  "pin_writes (relay_voltage s) = pin_writes s @
     (if Sensor2_Val s > 10000 then (if RLY2_STATUS s = 0 then [(RLY2, LOW)] else [])
      else (if RLY2_STATUS s = 1 then [(RLY2, HIGH)] else []))"
  by (auto simp: relay_voltage_def VOLTAGE_NORMAL_def Let_def io_defs)

lemma relay_current_fields:
  "RLY1_STATUS (relay_current s) = (if Sensor1_Val s > 230 then 1 else 0)"
  "RLY2_STATUS (relay_current s) = RLY2_STATUS s"
  "RLY3_STATUS (relay_current s) = RLY3_STATUS s"
  "Sensor1_Val (relay_current s) = Sensor1_Val s"
  "Sensor2_Val (relay_current s) = Sensor2_Val s"
  "Sensor4_Val (relay_current s) = Sensor4_Val s"
  "pin_level (relay_current s) =
     (if Sensor1_Val s > 230 then (if RLY1_STATUS s = 0 then (pin_level s)(RLY1 := LOW) else pin_level s)
      else (if RLY1_STATUS s = 1 then (pin_level s)(RLY1 := HIGH) else pin_level s))"
  "pin_writes (relay_current s) = pin_writes s @
     (if Sensor1_Val s > 230 then (if RLY1_STATUS s = 0 then [(RLY1, LOW)] else [])
      else (if RLY1_STATUS s = 1 then [(RLY1, HIGH)] else []))"
  by (auto simp: relay_current_def CURRENT_NORMAL_def Let_def io_defs)

lemma relay_temperature_fields:
  "RLY3_STATUS (relay_temperature s) = (if Sensor4_Val s > 30 then 1 else 0)"
  "RLY1_STATUS (relay_temperature s) = RLY1_STATUS s"
  "RLY2_STATUS (relay_temperature s) = RLY2_STATUS s"
  "Sensor1_Val (relay_temperature s) = Sensor1_Val s"
  "Sensor2_Val (relay_temperature s) = Sensor2_Val s"
  "Sensor4_Val (relay_temperature s) = Sensor4_Val s"
  "pin_level (relay_temperature s) =
     (if Sensor4_Val s > 30 then (if RLY3_STATUS s = 0 then (pin_level s)(RLY3 := LOW) else pin_level s)
      else (if RLY3_STATUS s = 1 then (pin_level s)(RLY3 := HIGH) else pin_level s))"
  "pin_writes (relay_temperature s) = pin_writes s @
     (if Sensor4_Val s > 30 then (if RLY3_STATUS s = 0 then [(RLY3, LOW)] else [])
      else (if RLY3_STATUS s = 1 then [(RLY3, HIGH)] else []))"
  by (auto simp: relay_temperature_def DHT11_NORMAL_def Let_def io_defs)

lemma RelayOperation_flags:
  "RLY1_STATUS (RelayOperation s) = (if Sensor1_Val s > 230 then 1 else 0)"
  "RLY2_STATUS (RelayOperation s) = (if Sensor2_Val s > 10000 then 1 else 0)"
  "RLY3_STATUS (RelayOperation s) = (if Sensor4_Val s > 30 then 1 else 0)"
  by (simp_all add: RelayOperation_def Let_def io_defs relay_voltage_fields
      relay_current_fields relay_temperature_fields)

lemma RelayOperation_samples:
  "Sensor1_Val (RelayOperation s) = Sensor1_Val s"
  "Sensor2_Val (RelayOperation s) = Sensor2_Val s"
  "Sensor4_Val (RelayOperation s) = Sensor4_Val s"
  by (simp_all add: RelayOperation_def Let_def io_defs relay_voltage_fields
      relay_current_fields relay_temperature_fields)

lemma RelayOperation_pin_writes:
  "pin_writes (RelayOperation s) = pin_writes s
     @ (if Sensor2_Val s > 10000 then (if RLY2_STATUS s = 0 then [(RLY2, LOW)] else [])
        else (if RLY2_STATUS s = 1 then [(RLY2, HIGH)] else []))
     @ (if Sensor1_Val s > 230 then (if RLY1_STATUS s = 0 then [(RLY1, LOW)] else [])
        else (if RLY1_STATUS s = 1 then [(RLY1, HIGH)] else []))
     @ (if Sensor4_Val s > 30 then (if RLY3_STATUS s = 0 then [(RLY3, LOW)] else [])
        else (if RLY3_STATUS s = 1 then [(RLY3, HIGH)] else []))"
  by (simp add: RelayOperation_def Let_def io_defs relay_voltage_fields
      relay_current_fields relay_temperature_fields)

lemma RelayOperation_pin_level:
  "pin_level (RelayOperation s) =
     pin_level (relay_temperature (relay_current (relay_voltage s)))"
  by (simp add: RelayOperation_def Let_def io_defs relay_voltage_fields
      relay_current_fields relay_temperature_fields)


lemma relay_pins_distinct: "RLY1 \<noteq> RLY2" "RLY1 \<noteq> RLY3" "RLY2 \<noteq> RLY3"
  by (simp_all add: RLY1_def RLY2_def RLY3_def)

lemma RelayOperation_pins:
  assumes "relay_consistent s"
  shows "pin_level (RelayOperation s) RLY1 = (if Sensor1_Val s > 230 then LOW else HIGH)"
    and "pin_level (RelayOperation s) RLY2 = (if Sensor2_Val s > 10000 then LOW else HIGH)"
    and "pin_level (RelayOperation s) RLY3 = (if Sensor4_Val s > 30 then LOW else HIGH)"
  using assms relay_pins_distinct
  by (auto simp: relay_consistent_def RelayOperation_pin_level relay_voltage_fields
      relay_current_fields relay_temperature_fields)

lemma RelayOperation_no_redundant_write:
  assumes "relay_consistent s"
  shows "(RLY1_STATUS s = 1) = (Sensor1_Val s > 230) \<Longrightarrow> writes_to RLY1 s (RelayOperation s) = []"
    and "(RLY2_STATUS s = 1) = (Sensor2_Val s > 10000) \<Longrightarrow> writes_to RLY2 s (RelayOperation s) = []"
    and "(RLY3_STATUS s = 1) = (Sensor4_Val s > 30) \<Longrightarrow> writes_to RLY3 s (RelayOperation s) = []"
  using assms relay_pins_distinct
  by (auto simp: relay_consistent_def writes_to_def RelayOperation_pin_writes)

lemma relay_consistent_RelayOperation:
  "relay_consistent s \<Longrightarrow> relay_consistent (RelayOperation s)"
  by (simp add: relay_consistent_def [of "RelayOperation s"] RelayOperation_flags
      RelayOperation_pins)

lemma relay_consistent_setup: "relay_consistent (setup_nano now nano_init)"
  by (simp add: relay_consistent_def setup_nano_def nano_init_def Let_def io_defs
      attachInterrupt_def relay_pins_distinct)

lemma Cal_RPM_relay [simp]:
  "RLY1_STATUS (Cal_RPM s) = RLY1_STATUS s" "RLY2_STATUS (Cal_RPM s) = RLY2_STATUS s"
  "RLY3_STATUS (Cal_RPM s) = RLY3_STATUS s" "pin_level (Cal_RPM s) = pin_level s"
  by (simp_all add: Cal_RPM_def Let_def io_defs detachInterrupt_def attachInterrupt_def)

lemma DHT11_read_relay [simp]:
  "RLY1_STATUS (DHT11_read ops h t f s) = RLY1_STATUS s"
  "RLY2_STATUS (DHT11_read ops h t f s) = RLY2_STATUS s"
  "RLY3_STATUS (DHT11_read ops h t f s) = RLY3_STATUS s"
  "pin_level (DHT11_read ops h t f s) = pin_level s"
  by (simp_all add: DHT11_read_def Let_def io_defs)

lemma ReadSensor_values_relay [simp]:
  "RLY1_STATUS (ReadSensor_values ops inp s) = RLY1_STATUS s"
  "RLY2_STATUS (ReadSensor_values ops inp s) = RLY2_STATUS s"
  "RLY3_STATUS (ReadSensor_values ops inp s) = RLY3_STATUS s"
  "pin_level (ReadSensor_values ops inp s) = pin_level s"
  by (simp_all add: ReadSensor_values_def Let_def io_defs)

lemma fill_buffers_relay [simp]:
  "RLY1_STATUS (fill_buffers s) = RLY1_STATUS s" "RLY2_STATUS (fill_buffers s) = RLY2_STATUS s"
  "RLY3_STATUS (fill_buffers s) = RLY3_STATUS s" "pin_level (fill_buffers s) = pin_level s"
  by (simp_all add: fill_buffers_def Let_def)

lemma send_frame_relay [simp]:
  "RLY1_STATUS (send_frame s) = RLY1_STATUS s" "RLY2_STATUS (send_frame s) = RLY2_STATUS s"
  "RLY3_STATUS (send_frame s) = RLY3_STATUS s" "pin_level (send_frame s) = pin_level s"
  by (simp_all add: send_frame_def Let_def io_defs esp_print_def)

lemma relay_consistent_transfer:
  "relay_consistent s \<Longrightarrow> RLY1_STATUS s' = RLY1_STATUS s \<Longrightarrow> RLY2_STATUS s' = RLY2_STATUS s
   \<Longrightarrow> RLY3_STATUS s' = RLY3_STATUS s \<Longrightarrow> pin_level s' = pin_level s
   \<Longrightarrow> relay_consistent s'"
  by (simp add: relay_consistent_def)

lemma relay_consistent_loop:
  assumes "relay_consistent s"
  shows "relay_consistent (loop_nano ops inp s)"
proof (cases "millis_check inp - startTime s \<ge> MEASUREMENT_DURATION_MS")
  case False
  then show ?thesis using assms by (simp add: loop_nano_def)
next
  case True
  have "relay_consistent (ReadSensor_values ops inp (Cal_RPM s))"
    by (rule relay_consistent_transfer [OF assms]) simp_all
  then have "relay_consistent (RelayOperation (ReadSensor_values ops inp (Cal_RPM s)))"
    by (rule relay_consistent_RelayOperation)
  then have "relay_consistent
      ((send_frame (RelayOperation (ReadSensor_values ops inp (Cal_RPM s))))\<lparr>startTime := millis_end inp\<rparr>)"
    by (rule relay_consistent_transfer) simp_all
  then show ?thesis
    using True by (simp add: loop_nano_def Let_def)
qed

lemma setup_nano_fields:
  "Sensor1_Val (setup_nano now s) = Sensor1_Val s"
  "Sensor2_Val (setup_nano now s) = Sensor2_Val s"
  "Sensor4_Val (setup_nano now s) = Sensor4_Val s"
  by (simp_all add: setup_nano_def Let_def io_defs attachInterrupt_def)

lemma retriggered_fields:
  "Sensor1_Val retriggered = 0" "Sensor2_Val retriggered = 21028" "Sensor4_Val retriggered = 0"
  "RLY1_STATUS retriggered = 0" "RLY2_STATUS retriggered = 1" "RLY3_STATUS retriggered = 0"
  by (simp_all add: retriggered_def RelayOperation_flags RelayOperation_samples
      setup_nano_fields nano_init_def)

lemma relay_consistent_retriggered: "relay_consistent retriggered"
  unfolding retriggered_def
  by (rule relay_consistent_RelayOperation)
     (rule relay_consistent_transfer [OF relay_consistent_setup [of 0]], simp_all)

text \<open>
  C3. In every state where the relay pins are at the levels of their flags (as after
  \<open>setup\<close> and after every pass of \<open>loop\<close>), \<open>RelayOperation\<close> leaves each channel's flag
  at 1 exactly when its sample exceeds its bound (current against 230, voltage against
  10000, temperature against 30) and its pin at \<open>LOW\<close> (relay ON) exactly then; and a
  channel whose predicate equals its prior flag sees no \<open>digitalWrite\<close>.
\<close>

theorem relay_flags_and_pins_follow_thresholds:
  assumes "relay_consistent s"
  shows "RLY1_STATUS (RelayOperation s) = (if Sensor1_Val s > 230 then 1 else 0)
    \<and> pin_level (RelayOperation s) RLY1 = (if Sensor1_Val s > 230 then LOW else HIGH)
    \<and> ((RLY1_STATUS s = 1) = (Sensor1_Val s > 230) \<longrightarrow> writes_to RLY1 s (RelayOperation s) = [])
    \<and> RLY2_STATUS (RelayOperation s) = (if Sensor2_Val s > 10000 then 1 else 0)
    \<and> pin_level (RelayOperation s) RLY2 = (if Sensor2_Val s > 10000 then LOW else HIGH)
    \<and> ((RLY2_STATUS s = 1) = (Sensor2_Val s > 10000) \<longrightarrow> writes_to RLY2 s (RelayOperation s) = [])
    \<and> RLY3_STATUS (RelayOperation s) = (if Sensor4_Val s > 30 then 1 else 0)
    \<and> pin_level (RelayOperation s) RLY3 = (if Sensor4_Val s > 30 then LOW else HIGH)
    \<and> ((RLY3_STATUS s = 1) = (Sensor4_Val s > 30) \<longrightarrow> writes_to RLY3 s (RelayOperation s) = [])"
  by (intro conjI impI)
     (fact RelayOperation_flags RelayOperation_pins [OF assms]
       | erule RelayOperation_no_redundant_write [OF assms])+

theorem relay_flags_and_pins_follow_thresholds_witness:
  "relay_consistent retriggered
   \<and> Sensor1_Val retriggered = 0 \<and> RLY1_STATUS retriggered = 0
   \<and> Sensor2_Val retriggered = 21028 \<and> RLY2_STATUS retriggered = 1
   \<and> Sensor4_Val retriggered = 0 \<and> RLY3_STATUS retriggered = 0
   \<and> RLY1_STATUS (RelayOperation retriggered) = 0
   \<and> pin_level (RelayOperation retriggered) RLY1 = HIGH
   \<and> writes_to RLY1 retriggered (RelayOperation retriggered) = []
   \<and> RLY2_STATUS (RelayOperation retriggered) = 1
   \<and> pin_level (RelayOperation retriggered) RLY2 = LOW
   \<and> writes_to RLY2 retriggered (RelayOperation retriggered) = []
   \<and> RLY3_STATUS (RelayOperation retriggered) = 0
   \<and> pin_level (RelayOperation retriggered) RLY3 = HIGH
   \<and> writes_to RLY3 retriggered (RelayOperation retriggered) = []"
  using relay_flags_and_pins_follow_thresholds [OF relay_consistent_retriggered]
  by (simp add: retriggered_fields relay_consistent_retriggered)


section \<open>Properties of the frame: encoding, link, decoding\<close>

lemma dec_small: "n < 10 \<Longrightarrow> dec n = [digit_char n]"
  by (simp add: dec.simps)

lemma dec_large: "\<not> n < 10 \<Longrightarrow> dec n = dec (n div 10) @ [digit_char (n mod 10)]"
  by (subst dec.simps) simp

lemma digit_char_in: "d < 10 \<Longrightarrow> digit_char d \<in> digits"
  unfolding digit_char_def digits_def by (rule nth_mem) simp

lemma dec_digits: "set (dec n) \<subseteq> digits"
proof (induction n rule: dec.induct)
  case (1 n)
  show ?case
  proof (cases "n < 10")
    case True
    then show ?thesis using digit_char_in [of n] by (simp add: dec_small)
  next
    case False
    then show ?thesis
      using 1 digit_char_in [of "n mod 10"] by (simp add: dec_large)
  qed
qed

lemma dec_nonempty: "dec n \<noteq> []"
  by (subst dec.simps) simp

lemma length_dec: "0 < k \<Longrightarrow> n < 10 ^ k \<Longrightarrow> length (dec n) \<le> k"
proof (induction n arbitrary: k rule: dec.induct)
  case (1 n)
  show ?case
  proof (cases "n < 10")
    case True
    then show ?thesis using 1 by (simp add: dec_small)
  next
    case False
    then obtain j where k: "k = Suc j" "0 < j"
      using 1(2,3) by (cases k; cases "k - 1") auto
    then have "n div 10 < 10 ^ j"
      using 1(3) by (simp add: less_mult_imp_div_less mult.commute)
    then have "length (dec (n div 10)) \<le> j"
      using 1(1) False k by simp
    then show ?thesis
      using False k by (simp add: dec_large)
  qed
qed

lemma fmt_d_chars: "set (fmt_d i) \<subseteq> insert (CHR ''-'') digits"
  using dec_digits [of "nat i"] dec_digits [of "nat (- i)"]
  by (cases "i < 0") (auto simp: fmt_d_def)

lemma fmt_d_free:
  "c \<noteq> CHR ''-'' \<Longrightarrow> c \<notin> digits \<Longrightarrow> c \<notin> set (fmt_d i)"
  using fmt_d_chars [of i] by blast

lemma not_digits: "CHR ''&'' \<notin> digits" "NL \<notin> digits" "CHR 0x00 \<notin> digits"
  by (simp_all add: digits_def)

lemma fmt_d_nonempty: "fmt_d i \<noteq> []"
  by (simp add: fmt_d_def dec_nonempty)

lemma length_fmt_d16: "length (fmt_d (sint (v :: 16 word))) \<le> 6"
proof -
  have b: "- 32768 \<le> sint v" "sint v \<le> 32767"
    using sint_ge [of v] sint_lt [of v] by simp_all
  have "nat (sint v) < 10 ^ 5" "nat (- sint v) < 10 ^ 5"
    using b by simp_all
  then have "length (dec (nat (sint v))) \<le> 5" "length (dec (nat (- sint v))) \<le> 5"
    by (simp_all add: length_dec)
  then show ?thesis
    by (simp add: fmt_d_def)
qed

lemma scan_field:
  assumes "field_ok f"
  shows "scan (ScanNot (CHR ''&'') 29 # Lit (CHR ''&'') # ds) (f @ CHR ''&'' # rest)
         = assigned f (scan ds rest)"
proof -
  have "take 29 (f @ CHR ''&'' # rest) = f @ take (29 - length f) (CHR ''&'' # rest)"
    using assms by (simp add: field_ok_def)
  moreover have "takeWhile (\<lambda>x. x \<noteq> CHR ''&'') (take (29 - length f) (CHR ''&'' # rest)) = []"
    by (cases "29 - length f") simp_all
  moreover have "takeWhile (\<lambda>x. x \<noteq> CHR ''&'') (f @ ys) = f @ takeWhile (\<lambda>x. x \<noteq> CHR ''&'') ys"
    for ys
    using assms by (intro takeWhile_append2) (auto simp: field_ok_def)
  ultimately have "takeWhile (\<lambda>x. x \<noteq> CHR ''&'') (take 29 (f @ CHR ''&'' # rest)) = f"
    by simp
  then show ?thesis
    using assms by (simp add: field_ok_def)
qed

lemma scan_RSV: "scan [Str 29] ''RSV'' = ([''RSV''], False)"
  by (simp add: isspace_def assigned_def)

lemma scan_frame14:
  assumes "field_ok f1" "field_ok f2" "field_ok f3" "field_ok f4" "field_ok f5"
    "field_ok f6" "field_ok f7" "field_ok f8" "field_ok f9" "field_ok f10"
    "field_ok f11" "field_ok f12" "field_ok f13"
  shows "scan frame_format
           (f1 @ CHR ''&'' # f2 @ CHR ''&'' # f3 @ CHR ''&'' # f4 @ CHR ''&'' # f5 @ CHR ''&'' #
            f6 @ CHR ''&'' # f7 @ CHR ''&'' # f8 @ CHR ''&'' # f9 @ CHR ''&'' # f10 @ CHR ''&'' #
            f11 @ CHR ''&'' # f12 @ CHR ''&'' # f13 @ CHR ''&'' # ''RSV'')
         = ([f1, f2, f3, f4, f5, f6, f7, f8, f9, f10, f11, f12, f13, ''RSV''], False)"
  unfolding frame_format_def
  by (simp only: scan_field [OF assms(1)] scan_field [OF assms(2)] scan_field [OF assms(3)]
      scan_field [OF assms(4)] scan_field [OF assms(5)] scan_field [OF assms(6)]
      scan_field [OF assms(7)] scan_field [OF assms(8)] scan_field [OF assms(9)]
      scan_field [OF assms(10)] scan_field [OF assms(11)] scan_field [OF assms(12)]
      scan_field [OF assms(13)] scan_RSV assigned_def fst_conv snd_conv)

lemma field_ok_fmt_d: "field_ok (fmt_d (sint (v :: 16 word)))"
  using length_fmt_d16 [of v]
  by (simp add: field_ok_def fmt_d_nonempty fmt_d_free not_digits)

lemma field_ok_tokens:
  "field_ok ''ADU_TEXT''" "field_ok ''ON''" "field_ok ''OFF''" "field_ok ''NOR''" "field_ok ''BUZ''"
  by (simp_all add: field_ok_def)

lemma fill_buffers_fields:
  "foo (fill_buffers s) = fmt_d (sint (Sensor1_Val s))"
  "bar (fill_buffers s) = fmt_d (sint (Sensor2_Val s))"
  "goo (fill_buffers s) = fmt_d (sint (Sensor3_Val s))"
  "har (fill_buffers s) = fmt_d (sint (Sensor4_Val s))"
  "ioo (fill_buffers s) = fmt_d (sint (Sensor5_Val s))"
  "jar (fill_buffers s) = fmt_d (sint (Sensor6_Val s))"
  "loo (fill_buffers s) = fmt_d (sint (Sensor7_Val s))"
  "mar (fill_buffers s) = fmt_d (sint (Sensor8_Val s))"
  "nob (fill_buffers s) = (if RLY1_STATUS s = 0 then ''OFF'' else ''ON'')"
  "tot (fill_buffers s) = (if RLY2_STATUS s = 0 then ''OFF'' else ''ON'')"
  "zar (fill_buffers s) = (if RLY3_STATUS s = 0 then ''OFF'' else ''ON'')"
  "yar (fill_buffers s) =
     (if RLY1_STATUS s = 0 \<and> RLY2_STATUS s = 0 \<and> RLY3_STATUS s = 0 then ''NOR''
      else if RLY1_STATUS s = 1 \<or> RLY2_STATUS s = 1 \<or> RLY3_STATUS s = 1 then ''BUZ''
      else yar s)"
  "uar (fill_buffers s) = ''RSV''"
  "esp_out (fill_buffers s) = esp_out s"
  by (simp_all add: fill_buffers_def Let_def)

lemma send_frame_fields:
  "frame_fields (send_frame s) = frame_fields (fill_buffers s)"
  "build_str (send_frame s) = build_str (fill_buffers s)"
  "esp_out (send_frame s) = esp_out s @ build_str (fill_buffers s)"
  by (simp_all add: send_frame_def Let_def io_defs esp_print_def frame_fields_def
      build_str_def fill_buffers_fields)

lemma sent_bytes_send_frame: "sent_bytes s (send_frame s) = build_str (fill_buffers s)"
  by (simp add: sent_bytes_def send_frame_fields)

lemma yar_binary:
  "flags_binary s \<Longrightarrow> yar (fill_buffers s) =
     (if RLY1_STATUS s = 0 \<and> RLY2_STATUS s = 0 \<and> RLY3_STATUS s = 0 then ''NOR'' else ''BUZ'')"
  by (auto simp: flags_binary_def fill_buffers_fields)

lemma frame_fields_ok:
  assumes "flags_binary s"
  shows "field_ok (foo (fill_buffers s))" "field_ok (bar (fill_buffers s))"
    "field_ok (goo (fill_buffers s))" "field_ok (har (fill_buffers s))"
    "field_ok (ioo (fill_buffers s))" "field_ok (jar (fill_buffers s))"
    "field_ok (loo (fill_buffers s))" "field_ok (mar (fill_buffers s))"
    "field_ok (nob (fill_buffers s))" "field_ok (tot (fill_buffers s))"
    "field_ok (zar (fill_buffers s))" "field_ok (yar (fill_buffers s))"
  by (simp_all add: yar_binary [OF assms] fill_buffers_fields(1-11) field_ok_fmt_d field_ok_tokens)

lemma build_str_shape:
  "build_str s = ''ADU_TEXT'' @ CHR ''&'' # foo s @ CHR ''&'' # bar s @ CHR ''&'' # goo s
     @ CHR ''&'' # har s @ CHR ''&'' # ioo s @ CHR ''&'' # jar s @ CHR ''&'' # loo s
     @ CHR ''&'' # mar s @ CHR ''&'' # nob s @ CHR ''&'' # tot s @ CHR ''&'' # zar s
     @ CHR ''&'' # yar s @ CHR ''&'' # ''RSV''"
  if "uar s = ''RSV''"
  using that by (simp add: build_str_def)

lemma scan_sent_frame:
  assumes "flags_binary s"
  shows "scan frame_format (build_str (fill_buffers s)) = (frame_fields (fill_buffers s), False)"
proof -
  have u: "uar (fill_buffers s) = ''RSV''"
    by (simp add: fill_buffers_fields)
  show ?thesis
    unfolding build_str_shape [OF u] frame_fields_def u
    by (rule scan_frame14 [OF field_ok_tokens(1) frame_fields_ok [OF assms]])
qed

lemmas esp_log_defs = esp_print_log_def esp_println_log_def

lemma parse_line_fields:
  "data (parse_line buf s) = assign_fields (fst (scan frame_format buf)) (data s)"
  "posts (parse_line buf s) = posts s"
  "wifi_begins (parse_line buf s) = wifi_begins s"
  by (simp_all add: parse_line_def Let_def esp_log_defs)

lemma sendData_fits:
  assumes "length (json_text (data s)) < 300"
  obtains s' where "sendData env s = Inr s'" "data s' = data s"
    "posts s' = posts s @ (if wifi_connected env \<and> begin_ok env then [json_text (data s)] else [])"
proof -
  have "\<exists>s'. sendData env s = Inr s' \<and> data s' = data s
      \<and> posts s' = posts s @ (if wifi_connected env \<and> begin_ok env then [json_text (data s)] else [])"
    using assms by (simp add: sendData_def Let_def esp_log_defs)
  then show ?thesis using that by blast
qed

lemma length_json_text:
  "length (json_text [f1, f2, f3, f4, f5, f6, f7, f8, f9, f10, f11, f12, f13, f14])
   = 159 + length f1 + length f2 + length f3 + length f4 + length f5 + length f6 + length f7
     + length f8 + length f9 + length f10 + length f11 + length f12 + length f13"
  by (simp add: json_text_def)

lemma sent_frame_props:
  assumes "flags_binary s"
  shows "build_str (fill_buffers s) \<noteq> []"
    and "length (build_str (fill_buffers s)) \<le> 500"
    and "NL \<notin> set (build_str (fill_buffers s))"
    and "CHR 0x00 \<notin> set (build_str (fill_buffers s))"
    and "length (json_text (frame_fields (fill_buffers s))) < 300"
proof -
  note l = length_fmt_d16 [of "Sensor1_Val s"] length_fmt_d16 [of "Sensor2_Val s"]
    length_fmt_d16 [of "Sensor3_Val s"] length_fmt_d16 [of "Sensor4_Val s"]
    length_fmt_d16 [of "Sensor5_Val s"] length_fmt_d16 [of "Sensor6_Val s"]
    length_fmt_d16 [of "Sensor7_Val s"] length_fmt_d16 [of "Sensor8_Val s"]
  show "build_str (fill_buffers s) \<noteq> []"
    by (simp add: build_str_def)
  show "length (build_str (fill_buffers s)) \<le> 500"
    using l by (simp add: build_str_def fill_buffers_fields(1-11,13) yar_binary [OF assms])
  show "NL \<notin> set (build_str (fill_buffers s))"
    by (simp add: build_str_def fill_buffers_fields(1-11,13) yar_binary [OF assms]
        fmt_d_free not_digits)
  show "CHR 0x00 \<notin> set (build_str (fill_buffers s))"
    by (simp add: build_str_def fill_buffers_fields(1-11,13) yar_binary [OF assms]
        fmt_d_free not_digits)
  show "length (json_text (frame_fields (fill_buffers s))) < 300"
    using l unfolding frame_fields_def length_json_text
    by (simp add: fill_buffers_fields(1-11,13) yar_binary [OF assms])
qed

lemma readBytesUntil_whole:
  "length rx \<le> n \<Longrightarrow> t \<notin> set rx \<Longrightarrow> readBytesUntil t n rx = (rx, [])"
proof -
  assume a: "length rx \<le> n" "t \<notin> set rx"
  then have tw: "takeWhile (\<lambda>c. c \<noteq> t) (take n rx) = rx"
    by (auto simp: takeWhile_eq_all_conv)
  show ?thesis
    unfolding readBytesUntil_def Let_def tw using a by simp
qed

lemma c_str_whole: "CHR 0x00 \<notin> set bs \<Longrightarrow> c_str bs = bs"
  by (auto simp: c_str_def takeWhile_eq_all_conv)

lemma loop_esp_on_line:
  assumes "rx \<noteq> []" "length rx \<le> 500" "NL \<notin> set rx" "CHR 0x00 \<notin> set rx"
  shows "loop_esp env rx s =
     (case sendData env (parse_line rx s) of Inl e \<Rightarrow> Inl e | Inr s' \<Rightarrow> Inr (s', []))"
  using assms by (simp add: loop_esp_def readBytesUntil_whole c_str_whole)

text \<open>
  Whatever the sample, as long as every relay flag is 0 or 1: the frame that the Sensing
  Node writes to the link is split by the Forwarding Node's \<open>sscanf\<close> into exactly 14
  fields, and the fourteen buffers then hold, byte for byte and in order, the type tag
  and the thirteen field buffers of the Sensing Node; the pass does not fault.
\<close>

lemma decoded_fields_are_encoder_fields:
  assumes "flags_binary s" and "length (data e) = 14"
  shows "fst (scan frame_format (sent_bytes s (send_frame s))) = frame_fields (fill_buffers s)
    \<and> sscanf_result (scan frame_format (sent_bytes s (send_frame s))) = 14
    \<and> received_fields (loop_esp env (sent_bytes s (send_frame s)) e)
        = Some (frame_fields (fill_buffers s))"
proof -
  let ?frame = "build_str (fill_buffers s)"
  have sc: "scan frame_format ?frame = (frame_fields (fill_buffers s), False)"
    by (rule scan_sent_frame [OF assms(1)])
  have len: "length (frame_fields (fill_buffers s)) = 14"
    by (simp add: frame_fields_def)
  have d: "data (parse_line ?frame e) = frame_fields (fill_buffers s)"
    using assms(2) by (simp add: parse_line_fields sc assign_fields_def len)
  have "length (json_text (data (parse_line ?frame e))) < 300"
    unfolding d by (rule sent_frame_props(5) [OF assms(1)])
  then obtain e' where e': "sendData env (parse_line ?frame e) = Inr e'"
    "data e' = data (parse_line ?frame e)"
    by (rule sendData_fits)
  have "loop_esp env ?frame e = Inr (e', [])"
    using sent_frame_props(1-4) [OF assms(1)] e' by (simp add: loop_esp_on_line)
  then show ?thesis
    using e' d by (simp add: sent_bytes_send_frame sc sscanf_result_def len received_fields_def)
qed

lemma Cal_RPM_frame:
  "Sensor1_Val (Cal_RPM s) = Sensor1_Val s" "Sensor2_Val (Cal_RPM s) = Sensor2_Val s"
  "Sensor4_Val (Cal_RPM s) = Sensor4_Val s" "Sensor5_Val (Cal_RPM s) = Sensor5_Val s"
  "Sensor6_Val (Cal_RPM s) = Sensor6_Val s" "Sensor7_Val (Cal_RPM s) = Sensor7_Val s"
  "Sensor8_Val (Cal_RPM s) = Sensor8_Val s" "esp_out (Cal_RPM s) = esp_out s"
  by (simp_all add: Cal_RPM_def Let_def io_defs detachInterrupt_def attachInterrupt_def)

lemma DHT11_read_effect:
  "Sensor1_Val (DHT11_read ops h t f s) = Sensor1_Val s"
  "Sensor2_Val (DHT11_read ops h t f s) = Sensor2_Val s"
  "Sensor3_Val (DHT11_read ops h t f s) = Sensor3_Val s"
  "esp_out (DHT11_read ops h t f s) = esp_out s"
  "Sensor4_Val (DHT11_read ops h t f s) =
     (if isnan ops h \<or> isnan ops t \<or> isnan ops f then Sensor4_Val s else to_uint ops t)"
  "Sensor5_Val (DHT11_read ops h t f s) =
     (if isnan ops h \<or> isnan ops t \<or> isnan ops f then Sensor5_Val s else to_uint ops h)"
  "Sensor6_Val (DHT11_read ops h t f s) =
     (if isnan ops h \<or> isnan ops t \<or> isnan ops f then Sensor6_Val s else to_uint ops f)"
  "Sensor7_Val (DHT11_read ops h t f s) =
     (if isnan ops h \<or> isnan ops t \<or> isnan ops f then Sensor7_Val s
      else to_uint ops (computeHeatIndex ops t h False))"
  "Sensor8_Val (DHT11_read ops h t f s) =
     (if isnan ops h \<or> isnan ops t \<or> isnan ops f then Sensor8_Val s
      else to_uint ops (computeHeatIndex ops f h True))"
  by (simp_all add: DHT11_read_def Let_def io_defs)

lemma ReadSensor_values_effect:
  "Sensor1_Val (ReadSensor_values ops inp s) =
     (if adc_current inp < 20 then 0 else scale_current ops (adc_current inp))"
  "Sensor2_Val (ReadSensor_values ops inp s) =
     (if scale_voltage ops (adc_voltage inp) \<le> 1000 then 0
      else scale_voltage ops (adc_voltage inp))"
  "Sensor3_Val (ReadSensor_values ops inp s) = Sensor3_Val s"
  "esp_out (ReadSensor_values ops inp s) = esp_out s"
  by (simp_all add: ReadSensor_values_def Let_def io_defs DHT11_read_effect)

lemma ReadSensor_values_dht:
  "Sensor4_Val (ReadSensor_values ops inp s) =
     Sensor4_Val (DHT11_read ops (dht_humidity inp) (dht_temperature inp) (dht_fahrenheit inp) s)"
  "Sensor5_Val (ReadSensor_values ops inp s) =
     Sensor5_Val (DHT11_read ops (dht_humidity inp) (dht_temperature inp) (dht_fahrenheit inp) s)"
  "Sensor6_Val (ReadSensor_values ops inp s) =
     Sensor6_Val (DHT11_read ops (dht_humidity inp) (dht_temperature inp) (dht_fahrenheit inp) s)"
  "Sensor7_Val (ReadSensor_values ops inp s) =
     Sensor7_Val (DHT11_read ops (dht_humidity inp) (dht_temperature inp) (dht_fahrenheit inp) s)"
  "Sensor8_Val (ReadSensor_values ops inp s) =
     Sensor8_Val (DHT11_read ops (dht_humidity inp) (dht_temperature inp) (dht_fahrenheit inp) s)"
  by (simp_all add: ReadSensor_values_def Let_def io_defs DHT11_read_effect)

lemma print_status_frame [simp]:
  "Sensor3_Val (print_status l s) = Sensor3_Val s" "Sensor5_Val (print_status l s) = Sensor5_Val s"
  "Sensor6_Val (print_status l s) = Sensor6_Val s" "Sensor7_Val (print_status l s) = Sensor7_Val s"
  "Sensor8_Val (print_status l s) = Sensor8_Val s" "esp_out (print_status l s) = esp_out s"
  by (simp_all add: print_status_def Let_def io_defs)

lemma relay_blocks_frame:
  "Sensor3_Val (relay_voltage s) = Sensor3_Val s" "Sensor5_Val (relay_voltage s) = Sensor5_Val s"
  "Sensor6_Val (relay_voltage s) = Sensor6_Val s" "Sensor7_Val (relay_voltage s) = Sensor7_Val s"
  "Sensor8_Val (relay_voltage s) = Sensor8_Val s" "esp_out (relay_voltage s) = esp_out s"
  "Sensor3_Val (relay_current s) = Sensor3_Val s" "Sensor5_Val (relay_current s) = Sensor5_Val s"
  "Sensor6_Val (relay_current s) = Sensor6_Val s" "Sensor7_Val (relay_current s) = Sensor7_Val s"
  "Sensor8_Val (relay_current s) = Sensor8_Val s" "esp_out (relay_current s) = esp_out s"
  "Sensor3_Val (relay_temperature s) = Sensor3_Val s" "Sensor5_Val (relay_temperature s) = Sensor5_Val s"
  "Sensor6_Val (relay_temperature s) = Sensor6_Val s" "Sensor7_Val (relay_temperature s) = Sensor7_Val s"
  "Sensor8_Val (relay_temperature s) = Sensor8_Val s" "esp_out (relay_temperature s) = esp_out s"
  by (simp_all add: relay_voltage_def relay_current_def relay_temperature_def Let_def io_defs)

lemma RelayOperation_frame:
  "Sensor3_Val (RelayOperation s) = Sensor3_Val s" "Sensor5_Val (RelayOperation s) = Sensor5_Val s"
  "Sensor6_Val (RelayOperation s) = Sensor6_Val s" "Sensor7_Val (RelayOperation s) = Sensor7_Val s"
  "Sensor8_Val (RelayOperation s) = Sensor8_Val s" "esp_out (RelayOperation s) = esp_out s"
  by (simp_all add: RelayOperation_def Let_def io_defs relay_blocks_frame)

lemma flags_binary_RelayOperation: "flags_binary (RelayOperation s)"
  by (simp add: flags_binary_def RelayOperation_flags)

lemma loop_nano_elapsed:
  assumes "millis_check inp - startTime s \<ge> MEASUREMENT_DURATION_MS"
  shows "loop_nano ops inp s =
     (send_frame (RelayOperation (ReadSensor_values ops inp (Cal_RPM s))))\<lparr>startTime := millis_end inp\<rparr>"
  using assms by (simp add: loop_nano_def Let_def)

lemma startTime_update_frame [simp]:
  "build_str (s\<lparr>startTime := t\<rparr>) = build_str s"
  "frame_fields (s\<lparr>startTime := t\<rparr>) = frame_fields s"
  "sent_bytes s0 (s\<lparr>startTime := t\<rparr>) = sent_bytes s0 s"
  by (simp_all add: build_str_def frame_fields_def sent_bytes_def)

lemma sent_bytes_loop:
  assumes "millis_check inp - startTime s \<ge> MEASUREMENT_DURATION_MS"
  shows "sent_bytes s (loop_nano ops inp s)
         = build_str (fill_buffers (RelayOperation (ReadSensor_values ops inp (Cal_RPM s))))"
    and "build_str (loop_nano ops inp s)
         = build_str (fill_buffers (RelayOperation (ReadSensor_values ops inp (Cal_RPM s))))"
    and "frame_fields (loop_nano ops inp s)
         = frame_fields (fill_buffers (RelayOperation (ReadSensor_values ops inp (Cal_RPM s))))"
  by (simp_all add: loop_nano_elapsed [OF assms] send_frame_fields sent_bytes_def
      RelayOperation_frame ReadSensor_values_effect Cal_RPM_frame)

text \<open>
  What the Sensing Node sends in a measurement window: exactly the frame
  \<open>ADU_TEXT&v1&...&v8&r1&r2&r3&agg&RSV\<close>, ending with the reserved token and containing
  no newline, since \<open>esp.print\<close> appends none. The Forwarding Node's \<open>readBytesUntil\<close>
  therefore never meets its terminator: it returns the frame when the input runs out,
  that is, when the read times out.
\<close>

theorem frame_sent_without_newline:
  assumes "millis_check inp - startTime s \<ge> MEASUREMENT_DURATION_MS"
  shows "sent_bytes s (loop_nano ops inp s) = build_str (loop_nano ops inp s)
    \<and> uar (loop_nano ops inp s) = ''RSV''
    \<and> NL \<notin> set (sent_bytes s (loop_nano ops inp s))
    \<and> readBytesUntil NL 500 (sent_bytes s (loop_nano ops inp s))
        = (sent_bytes s (loop_nano ops inp s), [])"
proof -
  let ?s3 = "RelayOperation (ReadSensor_values ops inp (Cal_RPM s))"
  have fb: "flags_binary ?s3"
    by (rule flags_binary_RelayOperation)
  have "uar (loop_nano ops inp s) = ''RSV''"
    by (simp add: loop_nano_elapsed [OF assms] send_frame_def Let_def io_defs esp_print_def
        fill_buffers_fields)
  moreover have "readBytesUntil NL 500 (build_str (fill_buffers ?s3)) = (build_str (fill_buffers ?s3), [])"
    using sent_frame_props(2,3) [OF fb] by (rule readBytesUntil_whole)
  ultimately show ?thesis
    using sent_frame_props(3) [OF fb] by (simp add: sent_bytes_loop [OF assms])
qed

lemmas fmt_eval = fmt_d_def dec_small dec_large digit_char_def

lemma demo_elapsed:
  "millis_check demo_inputs - startTime demo_state \<ge> MEASUREMENT_DURATION_MS"
  by (simp add: demo_inputs_def demo_state_def setup_nano_def Let_def io_defs
      attachInterrupt_def MEASUREMENT_DURATION_MS_def nano_init_def)

lemma demo_state_fields:
  "pulseCount demo_state = 500" "prpm demo_state = 0"
  by (simp_all add: demo_state_def setup_nano_def Let_def io_defs attachInterrupt_def
      nano_init_def)

lemma demo_frame:
  "sent_bytes demo_state (loop_nano demo_ops demo_inputs demo_state)
   = ''ADU_TEXT&0&21028&1500&25&60&77&25&77&OFF&ON&OFF&BUZ&RSV''"
proof -
  let ?s3 = "RelayOperation (ReadSensor_values demo_ops demo_inputs (Cal_RPM demo_state))"
  have v: "Sensor1_Val ?s3 = 0" "Sensor2_Val ?s3 = 21028" "Sensor3_Val ?s3 = 1500"
    "Sensor4_Val ?s3 = 25" "Sensor5_Val ?s3 = 60" "Sensor6_Val ?s3 = 77"
    "Sensor7_Val ?s3 = 25" "Sensor8_Val ?s3 = 77"
    by (simp_all add: RelayOperation_samples RelayOperation_frame ReadSensor_values_effect
        ReadSensor_values_dht DHT11_read_effect Sensor3_Val_Cal_RPM demo_state_fields
        smooth_def demo_ops_def demo_inputs_def)
  have f: "RLY1_STATUS ?s3 = 0" "RLY2_STATUS ?s3 = 1" "RLY3_STATUS ?s3 = 0"
    by (simp_all add: RelayOperation_flags ReadSensor_values_effect
        ReadSensor_values_dht DHT11_read_effect demo_ops_def demo_inputs_def)
  show ?thesis
    unfolding sent_bytes_loop(1) [OF demo_elapsed]
    by (simp add: build_str_def fill_buffers_fields v f fmt_eval)
qed

theorem frame_sent_without_newline_witness:
  "millis_check demo_inputs - startTime demo_state \<ge> MEASUREMENT_DURATION_MS
   \<and> (sent_bytes demo_state (loop_nano demo_ops demo_inputs demo_state)
       = build_str (loop_nano demo_ops demo_inputs demo_state)
   \<and> uar (loop_nano demo_ops demo_inputs demo_state) = ''RSV''
   \<and> NL \<notin> set (sent_bytes demo_state (loop_nano demo_ops demo_inputs demo_state))
   \<and> readBytesUntil NL 500 (sent_bytes demo_state (loop_nano demo_ops demo_inputs demo_state))
       = (sent_bytes demo_state (loop_nano demo_ops demo_inputs demo_state), []))"
  by (rule conjI [OF demo_elapsed frame_sent_without_newline [OF demo_elapsed]])

text \<open>
  C8. The frame on the link is to be newline-terminated, and the Forwarding Node reads
  up to a newline; but in the example window (\<open>setup\<close> at time 0, 500 pulses, raw current
  15, raw voltage 900, 25 degrees, 60 percent humidity) the bytes that \<open>loop\<close> writes to the
  link are the bare frame: the last byte is the \<open>V\<close> of \<open>RSV\<close> and no newline occurs.
\<close>

theorem frame_newline_counterexample:
  "sent_bytes demo_state (loop_nano demo_ops demo_inputs demo_state)
     = ''ADU_TEXT&0&21028&1500&25&60&77&25&77&OFF&ON&OFF&BUZ&RSV''
   \<and> last (sent_bytes demo_state (loop_nano demo_ops demo_inputs demo_state)) \<noteq> NL
   \<and> NL \<notin> set (sent_bytes demo_state (loop_nano demo_ops demo_inputs demo_state))"
  by (simp add: demo_frame)

text \<open>
  C4, as the code has it. For every combination of the three relay flags, the aggregate
  status field of the frame (its 13th field) is the token \<open>NOR\<close> when all three flags
  are 0 and the token \<open>BUZ\<close> otherwise; the three relay fields are \<open>OFF\<close> for a flag
  of 0 and \<open>ON\<close> otherwise.
\<close>

theorem aggregate_status_token:
  assumes "flags_binary s"
  shows "frame_fields (send_frame s) ! 12
           = (if RLY1_STATUS s = 0 \<and> RLY2_STATUS s = 0 \<and> RLY3_STATUS s = 0
              then ''NOR'' else ''BUZ'')
    \<and> frame_fields (send_frame s) ! 9 = (if RLY1_STATUS s = 0 then ''OFF'' else ''ON'')
    \<and> frame_fields (send_frame s) ! 10 = (if RLY2_STATUS s = 0 then ''OFF'' else ''ON'')
    \<and> frame_fields (send_frame s) ! 11 = (if RLY3_STATUS s = 0 then ''OFF'' else ''ON'')"
  unfolding send_frame_fields
  by (simp add: frame_fields_def yar_binary [OF assms] fill_buffers_fields(9-11))

lemma sample_window_flags:
  "RLY1_STATUS sample_window = 0" "RLY2_STATUS sample_window = 1" "RLY3_STATUS sample_window = 0"
  by (simp_all add: sample_window_def nano_init_def)

lemma flags_binary_sample: "flags_binary sample_window"
  by (simp add: flags_binary_def sample_window_flags)

theorem aggregate_status_token_witness:
  "flags_binary sample_window
   \<and> RLY1_STATUS sample_window = 0 \<and> RLY2_STATUS sample_window = 1 \<and> RLY3_STATUS sample_window = 0
   \<and> frame_fields (send_frame sample_window) ! 12 = ''BUZ''
   \<and> frame_fields (send_frame sample_window) ! 9 = ''OFF''
   \<and> frame_fields (send_frame sample_window) ! 10 = ''ON''
   \<and> frame_fields (send_frame sample_window) ! 11 = ''OFF''"
  using aggregate_status_token [OF flags_binary_sample]
  by (simp add: flags_binary_sample sample_window_flags)

text \<open>
  C4 as stated fails: with all flags OFF the field is \<open>NOR\<close>, not \<open>NORMAL\<close>, and with
  relay 2 ON it is \<open>BUZ\<close>, not \<open>ALERT\<close>.
\<close>

theorem aggregate_status_counterexample:
  "RLY1_STATUS nano_init = 0 \<and> RLY2_STATUS nano_init = 0 \<and> RLY3_STATUS nano_init = 0
   \<and> frame_fields (send_frame nano_init) ! 12 = ''NOR''
   \<and> frame_fields (send_frame nano_init) ! 12 \<noteq> ''NORMAL''
   \<and> RLY2_STATUS sample_window = 1
   \<and> frame_fields (send_frame sample_window) ! 12 = ''BUZ''
   \<and> frame_fields (send_frame sample_window) ! 12 \<noteq> ''ALERT''"
  unfolding send_frame_fields
  by (simp add: frame_fields_def fill_buffers_fields sample_window_flags)
     (simp add: nano_init_def)

lemma sample_frame:
  "frame_fields (fill_buffers sample_window)
   = [''ADU_TEXT'', ''10'', ''200'', ''1500'', ''25'', ''60'', ''77'', ''26'', ''79'',
      ''OFF'', ''ON'', ''OFF'', ''BUZ'', ''RSV'']"
  "sent_bytes sample_window (send_frame sample_window)
   = ''ADU_TEXT&10&200&1500&25&60&77&26&79&OFF&ON&OFF&BUZ&RSV''"
  by (simp_all add: sent_bytes_send_frame build_str_def frame_fields_def fill_buffers_fields
      sample_window_flags)
     (simp_all add: sample_window_def nano_init_def fmt_eval)

text \<open>
  The numeric field strings are what \<open>%d\<close> prints for the 16 bits of the sample: the
  plain decimal of the value up to 32767, and a negative number above.
\<close>

lemma sint_plain16:
  assumes "unat (v :: 16 word) < 32768"
  shows "sint v = int (unat v)"
proof -
  have hi: "uint v < 32768"
    unfolding uint_nat using assms by linarith
  have lo: "- 32768 \<le> uint v"
    using uint_nonnegative [of v] by linarith
  have "signed_take_bit 15 (uint v) = uint v"
    using lo hi by (intro signed_take_bit_int_eq_self) simp_all
  then have "sint v = uint v"
    by (simp add: sint_uint)
  then show ?thesis
    by simp
qed

lemma fmt_d_sint_plain:
  "unat (v :: 16 word) < 32768 \<Longrightarrow> fmt_d (sint v) = dec (unat v)"
  by (simp only: sint_plain16 fmt_d_def nat_int of_nat_less_0_iff if_False)

lemma fmt_d_sint_above_32767: "fmt_d (sint (40000 :: 16 word)) = ''-25536''"
  by (simp add: fmt_eval)

section \<open>Properties of the Forwarding Node and of the DHT reading\<close>

text \<open>
  C9. If any of the three DHT readings is not-a-number, \<open>DHT11_read\<close> changes nothing but
  the diagnostic output, to which it appends the failure message: \<open>Sensor4_Val\<close> to
  \<open>Sensor8_Val\<close> keep the values they had.
\<close>

theorem dht_failure_keeps_previous_sample:
  assumes "isnan ops h \<or> isnan ops t \<or> isnan ops f"
  shows "DHT11_read ops h t f s
           = s\<lparr>serial_out := serial_out s @ ''Failed to read from DHT sensor!'' @ [CR, NL]\<rparr>
    \<and> Sensor4_Val (DHT11_read ops h t f s) = Sensor4_Val s
    \<and> Sensor5_Val (DHT11_read ops h t f s) = Sensor5_Val s
    \<and> Sensor6_Val (DHT11_read ops h t f s) = Sensor6_Val s
    \<and> Sensor7_Val (DHT11_read ops h t f s) = Sensor7_Val s
    \<and> Sensor8_Val (DHT11_read ops h t f s) = Sensor8_Val s"
  using assms by (simp add: DHT11_read_def Serial_println_def)

theorem dht_failure_keeps_previous_sample_witness:
  "(isnan demo_ops (Some 60) \<or> isnan demo_ops nan_reading \<or> isnan demo_ops (Some 77))
   \<and> DHT11_read demo_ops (Some 60) nan_reading (Some 77) sample_window
       = sample_window\<lparr>serial_out := serial_out sample_window
           @ ''Failed to read from DHT sensor!'' @ [CR, NL]\<rparr>
   \<and> Sensor4_Val (DHT11_read demo_ops (Some 60) nan_reading (Some 77) sample_window) = 25
   \<and> Sensor5_Val (DHT11_read demo_ops (Some 60) nan_reading (Some 77) sample_window) = 60
   \<and> Sensor6_Val (DHT11_read demo_ops (Some 60) nan_reading (Some 77) sample_window) = 77
   \<and> Sensor7_Val (DHT11_read demo_ops (Some 60) nan_reading (Some 77) sample_window) = 26
   \<and> Sensor8_Val (DHT11_read demo_ops (Some 60) nan_reading (Some 77) sample_window) = 79"
proof -
  have n: "isnan demo_ops (Some 60) \<or> isnan demo_ops nan_reading \<or> isnan demo_ops (Some 77)"
    by (simp add: demo_ops_def nan_reading_def)
  have v: "Sensor4_Val sample_window = 25" "Sensor5_Val sample_window = 60"
    "Sensor6_Val sample_window = 77" "Sensor7_Val sample_window = 26"
    "Sensor8_Val sample_window = 79"
    by (simp_all add: sample_window_def nano_init_def)
  show ?thesis
    using dht_failure_keeps_previous_sample [OF n, of sample_window] n
    by (simp add: v)
qed

lemma loop_esp_line:
  assumes "rx \<noteq> []"
  shows "loop_esp env rx s =
     (case sendData env (parse_line (line_of rx) s) of
        Inl e \<Rightarrow> Inl e | Inr s' \<Rightarrow> Inr (s', snd (readBytesUntil NL 500 rx)))"
  using assms by (simp add: loop_esp_def line_of_def split_beta)

lemma loop_esp_fits:
  assumes "rx \<noteq> []" and "length (json_text (data (parse_line (line_of rx) s))) < 300"
  shows "received_fields (loop_esp env rx s) = Some (data (parse_line (line_of rx) s))"
    and "posted_bodies (loop_esp env rx s) =
      Some (posts s @ (if wifi_connected env \<and> begin_ok env
                       then [json_text (data (parse_line (line_of rx) s))] else []))"
proof -
  obtain s' where s': "sendData env (parse_line (line_of rx) s) = Inr s'"
    "data s' = data (parse_line (line_of rx) s)"
    "posts s' = posts (parse_line (line_of rx) s) @
       (if wifi_connected env \<and> begin_ok env
        then [json_text (data (parse_line (line_of rx) s))] else [])"
    using assms(2) by (rule sendData_fits)
  show "received_fields (loop_esp env rx s) = Some (data (parse_line (line_of rx) s))"
    using s' by (simp add: loop_esp_line [OF assms(1)] received_fields_def)
  show "posted_bodies (loop_esp env rx s) =
      Some (posts s @ (if wifi_connected env \<and> begin_ok env
                       then [json_text (data (parse_line (line_of rx) s))] else []))"
    using s' by (simp add: loop_esp_line [OF assms(1)] posted_bodies_def parse_line_fields)
qed

text \<open>
  C1, as the code has it. For every received line, whatever its field count, its first
  field and the length of its fields, \<open>loop\<close> stores the fields that parse and calls
  \<open>sendData\<close>: when WiFi is connected, \<open>http.begin\<close> succeeds and the JSON text fits its
  buffer, exactly one POST is made for the line, with the buffers as the parse left them.
\<close>

theorem every_line_is_forwarded:
  assumes "rx \<noteq> []" and "wifi_connected env" and "begin_ok env"
    and "length (json_text (data (parse_line (line_of rx) s))) < 300"
  shows "posted_bodies (loop_esp env rx s)
         = Some (posts s @ [json_text (data (parse_line (line_of rx) s))])"
  using loop_esp_fits(2) [OF assms(1,4), of env] assms(2,3) by simp

text \<open>
  C10. When a received line parses into fewer than 14 fields, the buffers after the pass
  are the newly parsed fields followed by the previous contents of the remaining
  buffers, and (WiFi connected, \<open>http.begin\<close> successful, the text fitting the buffer)
  the JSON body posted is built from exactly this mixture.
\<close>

theorem short_line_keeps_stale_fields:
  assumes "rx \<noteq> []" and "length (fst (scan frame_format (line_of rx))) < 14"
    and "wifi_connected env" and "begin_ok env"
    and "length (json_text (fst (scan frame_format (line_of rx))
           @ drop (length (fst (scan frame_format (line_of rx)))) (data s))) < 300"
  shows "received_fields (loop_esp env rx s)
           = Some (fst (scan frame_format (line_of rx))
                   @ drop (length (fst (scan frame_format (line_of rx)))) (data s))
    \<and> posted_bodies (loop_esp env rx s)
        = Some (posts s @ [json_text (fst (scan frame_format (line_of rx))
                   @ drop (length (fst (scan frame_format (line_of rx)))) (data s))])"
proof -
  have d: "data (parse_line (line_of rx) s)
      = fst (scan frame_format (line_of rx))
        @ drop (length (fst (scan frame_format (line_of rx)))) (data s)"
    by (simp add: parse_line_fields assign_fields_def)
  have fit: "length (json_text (data (parse_line (line_of rx) s))) < 300"
    unfolding d by (rule assms(5))
  show ?thesis
    using loop_esp_fits [OF assms(1) fit, of env] assms(3,4) by (simp add: d)
qed

lemma line_of_examples:
  "line_of short_line = ''ADU_TEXT&11&201''"
  "line_of wrong_tag_line = ''HELLO&10&200&1500&25&60&77&26&79&OFF&ON&OFF&BUZ&RSV''"
  "line_of long_field_line = ''ADU_TEXT&123456789012345678901234567890123&2''"
  by (simp_all add: line_of_def readBytesUntil_def c_str_def short_line_def wrong_tag_line_def
      long_field_line_def)

lemma scan_short_line:
  "scan frame_format ''ADU_TEXT&11&201'' = ([''ADU_TEXT'', ''11'', ''201''], True)"
  by (simp add: frame_format_def assigned_def Let_def)

lemma scan_wrong_tag_line:
  "scan frame_format ''HELLO&10&200&1500&25&60&77&26&79&OFF&ON&OFF&BUZ&RSV''
   = ([''HELLO'', ''10'', ''200'', ''1500'', ''25'', ''60'', ''77'', ''26'', ''79'',
       ''OFF'', ''ON'', ''OFF'', ''BUZ'', ''RSV''], False)"
  by (simp add: frame_format_def isspace_def assigned_def Let_def)

lemma scan_long_field_line:
  "scan frame_format ''ADU_TEXT&123456789012345678901234567890123&2''
   = ([''ADU_TEXT'', ''12345678901234567890123456789''], False)"
  by (simp add: frame_format_def assigned_def Let_def)

lemma example_lines_nonempty:
  "short_line \<noteq> []" "wrong_tag_line \<noteq> []" "long_field_line \<noteq> []"
  by (simp_all add: short_line_def wrong_tag_line_def long_field_line_def)

lemma online_fields: "wifi_connected online" "begin_ok online"
  by (simp_all add: online_def)

lemma stale_esp_fields:
  "data stale_esp = [''ADU_TEXT'', ''10'', ''200'', ''1500'', ''25'', ''60'', ''77'', ''26'', ''79'',
      ''OFF'', ''ON'', ''OFF'', ''BUZ'', ''RSV'']"
  "posts stale_esp = []"
  by (simp_all add: stale_esp_def esp_init_def)

lemma esp_init_fields:
  "data esp_init = [[], [], [], [], [], [], [], [], [], [], [], [], [], []]"
  "posts esp_init = []"
  by (simp_all add: esp_init_def eval_nat_numeral)

theorem short_line_keeps_stale_fields_witness:
  \<open>short_line \<noteq> [] \<and> length (fst (scan frame_format (line_of short_line))) < 14
   \<and> wifi_connected online \<and> begin_ok online
   \<and> length (json_text (fst (scan frame_format (line_of short_line))
         @ drop (length (fst (scan frame_format (line_of short_line)))) (data stale_esp))) < 300
   \<and> received_fields (loop_esp online short_line stale_esp)
       = Some [''ADU_TEXT'', ''11'', ''201'', ''1500'', ''25'', ''60'', ''77'', ''26'', ''79'',
               ''OFF'', ''ON'', ''OFF'', ''BUZ'', ''RSV'']
   \<and> posted_bodies (loop_esp online short_line stale_esp)
       = Some [''{"TYPE": "ADU_TEXT", "VAL1": "11", "VAL2": "201", "VAL3": "1500", "VAL4": "25", "VAL5": "60", "VAL6": "77", "VAL7": "26", "VAL8": "79", "VAL9": "OFF", "VAL10": "ON", "VAL11": "OFF", "VAL12": "BUZ"}'']\<close>
proof -
  have h: "length (fst (scan frame_format (line_of short_line))) < 14"
    "length (json_text (fst (scan frame_format (line_of short_line))
         @ drop (length (fst (scan frame_format (line_of short_line)))) (data stale_esp))) < 300"
    by (simp_all add: line_of_examples scan_short_line stale_esp_fields length_json_text)
  show ?thesis
    using short_line_keeps_stale_fields
      [OF example_lines_nonempty(1) h(1) online_fields h(2)] h
    by (simp add: example_lines_nonempty online_fields line_of_examples scan_short_line
        stale_esp_fields json_text_def)
qed

theorem every_line_is_forwarded_witness:
  \<open>wrong_tag_line \<noteq> [] \<and> wifi_connected online \<and> begin_ok online
   \<and> length (json_text (data (parse_line (line_of wrong_tag_line) esp_init))) < 300
   \<and> posted_bodies (loop_esp online wrong_tag_line esp_init)
       = Some [''{"TYPE": "HELLO", "VAL1": "10", "VAL2": "200", "VAL3": "1500", "VAL4": "25", "VAL5": "60", "VAL6": "77", "VAL7": "26", "VAL8": "79", "VAL9": "OFF", "VAL10": "ON", "VAL11": "OFF", "VAL12": "BUZ"}'']\<close>
proof -
  have d: "data (parse_line (line_of wrong_tag_line) esp_init)
      = [''HELLO'', ''10'', ''200'', ''1500'', ''25'', ''60'', ''77'', ''26'', ''79'',
         ''OFF'', ''ON'', ''OFF'', ''BUZ'', ''RSV'']"
    by (simp add: parse_line_fields line_of_examples scan_wrong_tag_line assign_fields_def
        esp_init_fields)
  have h: "length (json_text (data (parse_line (line_of wrong_tag_line) esp_init))) < 300"
    unfolding d length_json_text by simp
  show ?thesis
    using every_line_is_forwarded [OF example_lines_nonempty(2) online_fields h] h
    by (simp add: example_lines_nonempty online_fields d esp_init_fields json_text_def)
qed

text \<open>
  C1 as stated fails: a line with 3 fields, a line of 14 fields with the tag \<open>HELLO\<close>,
  and a line with a field of 33 bytes each produce one POST.
\<close>

theorem malformed_lines_are_posted:
  \<open>sscanf_result (scan frame_format (line_of short_line)) = 3
   \<and> posted_bodies (loop_esp online short_line esp_init)
     = Some [''{"TYPE": "ADU_TEXT", "VAL1": "11", "VAL2": "201", "VAL3": "", "VAL4": "", "VAL5": "", "VAL6": "", "VAL7": "", "VAL8": "", "VAL9": "", "VAL10": "", "VAL11": "", "VAL12": ""}'']
   \<and> hd (fst (scan frame_format (line_of wrong_tag_line))) = ''HELLO''
   \<and> posted_bodies (loop_esp online wrong_tag_line esp_init)
     = Some [''{"TYPE": "HELLO", "VAL1": "10", "VAL2": "200", "VAL3": "1500", "VAL4": "25", "VAL5": "60", "VAL6": "77", "VAL7": "26", "VAL8": "79", "VAL9": "OFF", "VAL10": "ON", "VAL11": "OFF", "VAL12": "BUZ"}'']
   \<and> sscanf_result (scan frame_format (line_of long_field_line)) = 2
   \<and> posted_bodies (loop_esp online long_field_line esp_init)
     = Some [''{"TYPE": "ADU_TEXT", "VAL1": "12345678901234567890123456789", "VAL2": "", "VAL3": "", "VAL4": "", "VAL5": "", "VAL6": "", "VAL7": "", "VAL8": "", "VAL9": "", "VAL10": "", "VAL11": "", "VAL12": ""}'']\<close>
proof -
  have d: "data (parse_line (line_of short_line) esp_init)
      = [''ADU_TEXT'', ''11'', ''201'', [], [], [], [], [], [], [], [], [], [], []]"
    "data (parse_line (line_of wrong_tag_line) esp_init)
      = [''HELLO'', ''10'', ''200'', ''1500'', ''25'', ''60'', ''77'', ''26'', ''79'',
         ''OFF'', ''ON'', ''OFF'', ''BUZ'', ''RSV'']"
    "data (parse_line (line_of long_field_line) esp_init)
      = [''ADU_TEXT'', ''12345678901234567890123456789'', [], [], [], [], [], [], [], [], [], [],
         [], []]"
    by (simp_all add: parse_line_fields line_of_examples scan_short_line scan_wrong_tag_line
        scan_long_field_line assign_fields_def esp_init_fields)
  have n: "sscanf_result (scan frame_format (line_of short_line)) = 3"
    "hd (fst (scan frame_format (line_of wrong_tag_line))) = ''HELLO''"
    "sscanf_result (scan frame_format (line_of long_field_line)) = 2"
    by (simp_all add: line_of_examples scan_short_line scan_wrong_tag_line
        scan_long_field_line sscanf_result_def)
  have h: "length (json_text (data (parse_line (line_of short_line) esp_init))) < 300"
    "length (json_text (data (parse_line (line_of wrong_tag_line) esp_init))) < 300"
    "length (json_text (data (parse_line (line_of long_field_line) esp_init))) < 300"
    unfolding d length_json_text by simp_all
  show ?thesis
    using loop_esp_fits(2) [OF example_lines_nonempty(1) h(1), of online]
      loop_esp_fits(2) [OF example_lines_nonempty(2) h(2), of online]
      loop_esp_fits(2) [OF example_lines_nonempty(3) h(3), of online]
    by (simp add: online_fields d esp_init_fields json_text_def n)
qed

section \<open>The pulse counter between window boundaries\<close>

lemma Cal_RPM_split: "Cal_RPM s = attachInterrupt (Cal_RPM_detached (detachInterrupt s))"
  by (simp add: Cal_RPM_def Cal_RPM_detached_def Let_def)

lemma Cal_RPM_resets: "pulseCount (Cal_RPM s) = 0" "irq_attached (Cal_RPM s)"
  by (simp_all add: Cal_RPM_def Let_def io_defs detachInterrupt_def attachInterrupt_def)

text \<open>
  The count that \<open>Cal_RPM\<close> reads is the \<open>pulseCount\<close> of the state it starts in: it
  prints it and smooths with it (\<open>prpm_Cal_RPM\<close>).
\<close>

lemma Cal_RPM_log:
  "serial_out (Cal_RPM s) = serial_out s @ NL # ''Raw Pulse Count: ''
     @ fmt_d (sint (pulseCount s)) @ TAB # ''Calculated RPM (prpm): ''
     @ fmt_d (sint (smooth (pulseCount s) (prpm s))) @ [CR, NL] @ ''Sensor3_Val (RPM): ''
     @ dec (unat (smooth (pulseCount s) (prpm s))) @ [CR, NL]"
  by (simp add: Cal_RPM_def Let_def io_defs detachInterrupt_def attachInterrupt_def)

lemma countPulse_funpow:
  "(countPulse ^^ n) s = s\<lparr>pulseCount := pulseCount s + word_of_nat n\<rparr>"
  by (induction n) (simp_all add: countPulse_def add.assoc add.commute)

lemma rising_edge_attached:
  "irq_attached s \<Longrightarrow> (rising_edge ctl ^^ n) s = (countPulse ^^ n) s"
proof (induction n)
  case 0
  show ?case by simp
next
  case (Suc n)
  have "irq_attached ((countPulse ^^ n) s)"
    using Suc.prems by (simp add: countPulse_funpow)
  then show ?case
    using Suc by (simp add: rising_edge_def)
qed






text \<open>
  Between \<open>detachInterrupt\<close> and \<open>attachInterrupt\<close> an edge does not run \<open>countPulse\<close>: the
  state changes as the controller decides. With a controller that forgets such edges,
  \<open>Cal_RPM\<close> with any number of edges arriving in the detached interval is \<open>Cal_RPM\<close>
  without them: they are counted in no window.
\<close>

lemma edge_while_detached: "\<not> irq_attached s \<Longrightarrow> rising_edge ctl s = ctl s"
  by (simp add: rising_edge_def)

lemma dropped_edges_detached:
  "\<not> irq_attached s \<Longrightarrow> (rising_edge drop_edge ^^ n) s = s"
  by (induction n) (simp_all add: rising_edge_def drop_edge_def)

lemma Cal_RPM_detached_irq: "irq_attached (Cal_RPM_detached s) = irq_attached s"
  by (simp add: Cal_RPM_detached_def Let_def io_defs)

lemma edges_in_detached_interval_dropped:
  "Cal_RPM_with_edges drop_edge k m s = Cal_RPM s"
  by (simp add: Cal_RPM_with_edges_def Cal_RPM_split dropped_edges_detached
      Cal_RPM_detached_irq detachInterrupt_def)

text \<open>
  For any controller that does not itself re-attach the interrupt, the edges that arrive
  in the detached interval reach only the controller, never \<open>countPulse\<close>.
\<close>

lemma edges_in_detached_interval:
  assumes "\<And>s. irq_attached (ctl s) = irq_attached s"
  shows "Cal_RPM_with_edges ctl k m s
         = attachInterrupt ((ctl ^^ m) (Cal_RPM_detached ((ctl ^^ k) (detachInterrupt s))))"
proof -
  have keep: "irq_attached ((ctl ^^ n) s') = irq_attached s'" for n s'
    by (induction n) (simp_all add: assms)
  have det: "\<not> irq_attached s' \<Longrightarrow> (rising_edge ctl ^^ n) s' = (ctl ^^ n) s'" for n s'
  proof (induction n)
    case 0
    show ?case by simp
  next
    case (Suc n)
    then show ?case by (simp add: rising_edge_def keep)
  qed
  have d1: "\<not> irq_attached (detachInterrupt s)"
    by (simp add: detachInterrupt_def)
  then have d2: "\<not> irq_attached (Cal_RPM_detached ((ctl ^^ k) (detachInterrupt s)))"
    by (simp add: Cal_RPM_detached_irq keep)
  show ?thesis
    by (simp add: Cal_RPM_with_edges_def det [OF d1] det [OF d2])
qed

text \<open>
  The stages of \<open>loop\<close> that run after \<open>Cal_RPM\<close> touch neither the counter nor the
  interrupt, so the edges that arrive during and after them are counted alike: after a
  pass of \<open>loop\<close> that reached the boundary, \<open>n\<close> edges leave the counter at \<open>n\<close> modulo
  \<open>2^16\<close>.
\<close>

lemma relay_blocks_keep_counter:
  "pulseCount (relay_voltage s) = pulseCount s" "irq_attached (relay_voltage s) = irq_attached s"
  "pulseCount (relay_current s) = pulseCount s" "irq_attached (relay_current s) = irq_attached s"
  "pulseCount (relay_temperature s) = pulseCount s"
  "irq_attached (relay_temperature s) = irq_attached s"
  "pulseCount (print_status l s) = pulseCount s" "irq_attached (print_status l s) = irq_attached s"
  by (simp_all add: relay_voltage_def relay_current_def relay_temperature_def print_status_def
      Let_def io_defs)

lemma DHT11_read_keeps_counter:
  "pulseCount (DHT11_read ops h t f s) = pulseCount s"
  "irq_attached (DHT11_read ops h t f s) = irq_attached s"
  by (simp_all add: DHT11_read_def Let_def io_defs)

lemma ReadSensor_values_keeps_counter:
  "pulseCount (ReadSensor_values ops inp s) = pulseCount s"
  "irq_attached (ReadSensor_values ops inp s) = irq_attached s"
  by (simp_all add: ReadSensor_values_def Let_def io_defs DHT11_read_keeps_counter)

lemma RelayOperation_keeps_counter:
  "pulseCount (RelayOperation s) = pulseCount s"
  "irq_attached (RelayOperation s) = irq_attached s"
  by (simp_all add: RelayOperation_def Let_def io_defs relay_blocks_keep_counter)

lemma send_frame_keeps_counter:
  "pulseCount (send_frame s) = pulseCount s"
  "irq_attached (send_frame s) = irq_attached s"
  by (simp_all add: send_frame_def fill_buffers_def esp_print_def Let_def io_defs)

lemmas stages_keep_counter = ReadSensor_values_keeps_counter RelayOperation_keeps_counter
  send_frame_keeps_counter

lemma loop_pass_resets:
  assumes "millis_check inp - startTime s \<ge> MEASUREMENT_DURATION_MS"
  shows "pulseCount (loop_nano ops inp s) = 0" and "irq_attached (loop_nano ops inp s)"
  by (simp_all add: loop_nano_elapsed [OF assms] stages_keep_counter Cal_RPM_resets)

lemma edges_after_loop_pass:
  assumes "millis_check inp - startTime s \<ge> MEASUREMENT_DURATION_MS"
  shows "pulseCount ((rising_edge ctl ^^ n) (loop_nano ops inp s)) = word_of_nat n"
  by (simp add: rising_edge_attached loop_pass_resets [OF assms] countPulse_funpow)

section \<open>The round trip of a sample\<close>

lemma encoder_fields_of_sample:
  assumes "flags_binary s" and "sample_below_32768 s"
  shows "frame_fields (fill_buffers s) = sample_strings s"
  using assms(2)
  by (simp add: frame_fields_def sample_strings_def fill_buffers_fields(1-11,13)
      yar_binary [OF assms(1)] sample_below_32768_def fmt_d_sint_plain)

text \<open>
  C5, as the code has it. For every measurement sample with numeric fields in 0 to 32767
  and every relay-state set (each flag 0 or 1), encoding the sample into a frame on the
  Sensing Node and decoding the frame with the Forwarding Node's 14-field split fills
  the fourteen buffers, byte for byte and in order, with the strings of the sample: the
  type tag, the decimal numeral of each of the eight values, the token of each relay
  flag, the aggregate token and the reserved token. The pass does not fault.
\<close>

theorem frame_round_trip:
  assumes "flags_binary s" and "sample_below_32768 s" and "length (data e) = 14"
  shows "received_fields (loop_esp env (sent_bytes s (send_frame s)) e) = Some (sample_strings s)
    \<and> sscanf_result (scan frame_format (sent_bytes s (send_frame s))) = 14"
  using decoded_fields_are_encoder_fields [OF assms(1,3), of env]
  by (simp add: encoder_fields_of_sample [OF assms(1,2)])

lemma sample_window_values:
  "Sensor1_Val sample_window = 10" "Sensor2_Val sample_window = 200"
  "Sensor3_Val sample_window = 1500" "Sensor4_Val sample_window = 25"
  "Sensor5_Val sample_window = 60" "Sensor6_Val sample_window = 77"
  "Sensor7_Val sample_window = 26" "Sensor8_Val sample_window = 79"
  by (simp_all add: sample_window_def nano_init_def)

lemma sample_window_below: "sample_below_32768 sample_window"
  by (simp add: sample_below_32768_def sample_window_values)

lemma sample_strings_sample_window:
  "sample_strings sample_window
   = [''ADU_TEXT'', ''10'', ''200'', ''1500'', ''25'', ''60'', ''77'', ''26'', ''79'',
      ''OFF'', ''ON'', ''OFF'', ''BUZ'', ''RSV'']"
  by (simp add: sample_strings_def sample_window_values sample_window_flags dec_small
      dec_large digit_char_def)

theorem frame_round_trip_witness:
  "flags_binary sample_window \<and> sample_below_32768 sample_window
   \<and> length (data esp_init) = 14
   \<and> sample_strings sample_window
       = [''ADU_TEXT'', ''10'', ''200'', ''1500'', ''25'', ''60'', ''77'', ''26'', ''79'',
          ''OFF'', ''ON'', ''OFF'', ''BUZ'', ''RSV'']
   \<and> received_fields (loop_esp online (sent_bytes sample_window (send_frame sample_window)) esp_init)
       = Some [''ADU_TEXT'', ''10'', ''200'', ''1500'', ''25'', ''60'', ''77'', ''26'', ''79'',
          ''OFF'', ''ON'', ''OFF'', ''BUZ'', ''RSV'']
   \<and> sscanf_result (scan frame_format (sent_bytes sample_window (send_frame sample_window))) = 14"
proof -
  have l: "length (data esp_init) = 14"
    by (simp add: esp_init_def)
  show ?thesis
    using frame_round_trip [OF flags_binary_sample sample_window_below l, of online]
      flags_binary_sample sample_window_below l
    by (simp only: sample_strings_sample_window simp_thms)
qed

lemma large_sample_fields:
  "Sensor3_Val large_sample = 40000"
  "RLY1_STATUS large_sample = 0" "RLY2_STATUS large_sample = 1" "RLY3_STATUS large_sample = 0"
  "Sensor1_Val large_sample = 10" "Sensor2_Val large_sample = 200"
  "Sensor4_Val large_sample = 25" "Sensor5_Val large_sample = 60"
  "Sensor6_Val large_sample = 77" "Sensor7_Val large_sample = 26"
  "Sensor8_Val large_sample = 79"
  by (simp_all add: large_sample_def sample_window_def nano_init_def)

lemma flags_binary_large: "flags_binary large_sample"
  by (simp add: flags_binary_def large_sample_fields)

text \<open>
  C5 as stated fails inside the range 0 to 65535: an RPM field of 40000 is sent, and
  decoded, as \<open>-25536\<close>, because \<open>%d\<close> reads the 16 bits of the \<open>unsigned int\<close> as a
  signed \<open>int\<close>.
\<close>

theorem frame_round_trip_counterexample:
  "flags_binary large_sample \<and> length (data esp_init) = 14
   \<and> unat (Sensor3_Val large_sample) = 40000
   \<and> sample_strings large_sample
       = [''ADU_TEXT'', ''10'', ''200'', ''40000'', ''25'', ''60'', ''77'', ''26'', ''79'',
          ''OFF'', ''ON'', ''OFF'', ''BUZ'', ''RSV'']
   \<and> received_fields (loop_esp online (sent_bytes large_sample (send_frame large_sample)) esp_init)
       = Some [''ADU_TEXT'', ''10'', ''200'', ''-25536'', ''25'', ''60'', ''77'', ''26'', ''79'',
          ''OFF'', ''ON'', ''OFF'', ''BUZ'', ''RSV'']
   \<and> received_fields (loop_esp online (sent_bytes large_sample (send_frame large_sample)) esp_init)
       \<noteq> Some (sample_strings large_sample)"
proof -
  have l: "length (data esp_init) = 14"
    by (simp add: esp_init_def)
  have f: "frame_fields (fill_buffers large_sample)
      = [''ADU_TEXT'', ''10'', ''200'', ''-25536'', ''25'', ''60'', ''77'', ''26'', ''79'',
         ''OFF'', ''ON'', ''OFF'', ''BUZ'', ''RSV'']"
    by (simp add: frame_fields_def fill_buffers_fields large_sample_fields fmt_eval)
  have s: "sample_strings large_sample
      = [''ADU_TEXT'', ''10'', ''200'', ''40000'', ''25'', ''60'', ''77'', ''26'', ''79'',
         ''OFF'', ''ON'', ''OFF'', ''BUZ'', ''RSV'']"
    by (simp add: sample_strings_def large_sample_fields dec_small dec_large digit_char_def)
  have u: "unat (Sensor3_Val large_sample) = 40000"
    by (simp add: large_sample_fields)
  show ?thesis
    using decoded_fields_are_encoder_fields [OF flags_binary_large l, of online]
      flags_binary_large l u
    by (simp add: f s)
qed

end
